theory Spec2Isabelle
  imports Complex_Main
begin

section \<open>Numbers and transforms\<close>

text \<open>
  JavaScript numbers are taken as exact reals; the one place of \<^verbatim>\<open>app.ts\<close> where a
  computation can leave the reals is \<^verbatim>\<open>Math.pow(x, 1 / 3)\<close>, which is \<^verbatim>\<open>NaN\<close> for a
  negative base (the exponent is not an integer). A scale component is therefore a
  \<open>number\<close>: a real or \<open>NaN\<close>. Rounding of doubles is not modelled.
\<close>

datatype number = Num real | NaN

definition Math_pow_third :: "real \<Rightarrow> number" where
  "Math_pow_third b = (if b < 0 then NaN else Num (root 3 b))"

definition divide_number :: "number \<Rightarrow> real \<Rightarrow> number" where
  "divide_number a k = (case a of NaN \<Rightarrow> NaN | Num r \<Rightarrow> Num (r / k))"

datatype 'a Vector3Like = Vector3 (vx: 'a) (vy: 'a) (vz: 'a)

datatype Quaternion = Quaternion (qx: real) (qy: real) (qz: real) (qw: real)

definition DegreesToRadians :: real where
  "DegreesToRadians = pi / 180"

text \<open>\<^verbatim>\<open>MRE.Quaternion.RotationAxis(MRE.Vector3.Forward(), angle)\<close>: the forward axis is (0, 0, 1).\<close>

definition RotationAxisForward :: "real \<Rightarrow> Quaternion" where
  "RotationAxisForward angle = Quaternion 0 0 (sin (angle / 2)) (cos (angle / 2))"

section \<open>The data table\<close>

text \<open>
  \<^verbatim>\<open>interface DatabaseRecord\<close>. The fields \<^verbatim>\<open>inclination\<close> and \<^verbatim>\<open>obliquity\<close> carry the
  suffix \<open>Deg\<close> here, since \<^verbatim>\<open>interface CelestialBody\<close> has a node called \<^verbatim>\<open>inclination\<close>.
\<close>

record DatabaseRecord =
  name :: string
  fileFormat :: string
  parent :: string
  diameter :: real
  modelpositionxAxis :: real
  modelpositionyAxis :: real
  modelpositionzAxis :: real
  modelrotationxAxis :: real
  modelrotationyAxis :: real
  modelrotationzAxis :: real
  labelpositionxAxis :: real
  labelpositionyAxis :: real
  labelpositionzAxis :: real
  appearance :: bool
  distance :: real
  day :: real
  year :: real
  inclinationDeg :: real
  obliquityDeg :: real
  retrograde :: bool

text \<open>The JSON object: keys in insertion order, \<^verbatim>\<open>database[k]\<close> is \<open>map_of\<close>.\<close>

type_synonym Database = "(string \<times> DatabaseRecord) list"

definition Object_keys :: "Database \<Rightarrow> string list" where
  "Object_keys db = map fst db"

section \<open>Scene nodes and the application state\<close>

text \<open>
  An \<^verbatim>\<open>MRE.Actor\<close> is an object of the host; the application holds references to it.
  The store \<open>actors\<close> maps a reference (a number, fresh at each creation) to the actor.
\<close>

record Actor =
  actorName :: string
  parentId :: "nat option"
  appRotation :: Quaternion
  localPosition :: "real Vector3Like"
  localRotation :: Quaternion
  localScale :: "number Vector3Like"
  prefab :: "string option"
  colliderRadius :: "real option"
  appearanceEnabled :: bool
  buttonBehavior :: bool
  textContents :: "string option"

definition newActor :: "string \<Rightarrow> nat option \<Rightarrow> Actor" where
  "newActor n p =
     \<lparr> actorName = n, parentId = p, appRotation = Quaternion 0 0 0 1,
       localPosition = Vector3 0 0 0, localRotation = Quaternion 0 0 0 1,
       localScale = Vector3 (Num 1) (Num 1) (Num 1), prefab = None,
       colliderRadius = None, appearanceEnabled = True, buttonBehavior = False,
       textContents = None \<rparr>"

record CelestialBody =
  inclination :: nat
  position :: nat
  obliquity0 :: nat
  obliquity1 :: nat
  model :: nat
  label :: nat

text \<open>What an interval timer runs at each tick: the closure with the body it captured.\<close>

datatype callback = LabelBob "CelestialBody option" | GearOscillation "CelestialBody option"

datatype destination = LocalPositionY real | LocalScale "number Vector3Like"

record AnimateTo =
  target :: nat
  dest :: destination
  duration :: real

text \<open>
  A call of \<^verbatim>\<open>createBody\<close> suspended at its \<^verbatim>\<open>await\<close>: the locals that the rest of the
  function reads, and the asset container on which \<^verbatim>\<open>loadGltf\<close> was called.
\<close>

record Suspended =
  sBody :: string
  sFacts :: DatabaseRecord
  sInclination :: nat
  sPosition :: nat
  sLabel :: nat
  sObliquity0 :: nat
  sObliquity1 :: nat
  sContainer :: nat

text \<open>
  \<^verbatim>\<open>class SolarSystem\<close>: its fields, and beside them the part of the host and of the
  event loop that the application drives: the actors, the asset containers (\<open>assets\<close> is
  the reference to the current one, \<open>containers\<close> gives the uris of the prefabs
  registered in each), the calls of \<^verbatim>\<open>loadGltf\<close>, the calls of \<^verbatim>\<open>createBody\<close> that
  await their load, the running interval timers, the pending timeouts, the tweens
  started with \<^verbatim>\<open>AnimateTo\<close>, the actors with a bound looping animation, the bodies
  whose hover and click handlers are registered, and the log.
\<close>

record SolarSystem =
  celestialBodies :: "string \<rightharpoonup> CelestialBody"
  assets :: nat
  labelLoopInc :: int
  gearLoopInc :: int
  animationLoopIterval :: "nat option"
  childBoxTimeout :: "nat option"
  actors :: "nat \<rightharpoonup> Actor"
  nextActor :: nat
  containers :: "nat \<Rightarrow> string list"
  nextContainer :: nat
  loads :: "string list"
  awaiting :: "Suspended list"
  intervals :: "(nat \<times> string \<times> callback) list"
  timeouts :: "nat list"
  nextTimer :: nat
  animations :: "AnimateTo list"
  boundAnimations :: "nat list"
  handlers :: "string list"
  logged :: "(string \<times> string) list"

definition initial :: SolarSystem where
  "initial =
     \<lparr> celestialBodies = Map.empty, assets = 0, labelLoopInc = 0, gearLoopInc = 0,
       animationLoopIterval = None, childBoxTimeout = None, actors = Map.empty,
       nextActor = 0, containers = (\<lambda>_. []), nextContainer = 1, loads = [],
       awaiting = [], intervals = [], timeouts = [], nextTimer = 0, animations = [],
       boundAnimations = [], handlers = [], logged = [] \<rparr>"

text \<open>A call either returns or throws; what it changed before throwing stays changed.\<close>

datatype outcome = Returns SolarSystem | Throws string SolarSystem

fun state_of :: "outcome \<Rightarrow> SolarSystem" where
  "state_of (Returns s) = s"
| "state_of (Throws e s) = s"

definition TypeError :: string where
  "TypeError = ''TypeError''"

section \<open>Host operations\<close>

text \<open>
  Creation in the host can fail. \<open>fails\<close> says which: it maps the name of an actor, or
  the uri of an asset, to the error its creation throws.
\<close>

definition addActor :: "Actor \<Rightarrow> SolarSystem \<Rightarrow> SolarSystem" where
  "addActor a s = s\<lparr>actors := (actors s)(nextActor s \<mapsto> a), nextActor := Suc (nextActor s)\<rparr>"

definition Actor_Create ::
  "(string \<Rightarrow> string option) \<Rightarrow> Actor \<Rightarrow> SolarSystem \<Rightarrow> string + (nat \<times> SolarSystem)" where
  "Actor_Create fails a s =
     (case fails (actorName a) of
        Some e \<Rightarrow> Inl e
      | None \<Rightarrow> Inr (nextActor s, addActor a s))"

definition updateActor :: "nat \<Rightarrow> (Actor \<Rightarrow> Actor) \<Rightarrow> SolarSystem \<Rightarrow> SolarSystem" where
  "updateActor i f s = s\<lparr>actors := (actors s)(i := map_option f (actors s i))\<rparr>"

definition Animation_AnimateTo :: "nat \<Rightarrow> destination \<Rightarrow> real \<Rightarrow> SolarSystem \<Rightarrow> SolarSystem" where
  "Animation_AnimateTo t d u s =
     s\<lparr>animations := animations s @ [\<lparr>target = t, dest = d, duration = u\<rparr>]\<rparr>"

definition clearInterval :: "nat option \<Rightarrow> SolarSystem \<Rightarrow> SolarSystem" where
  "clearInterval h s = s\<lparr>intervals := filter (\<lambda>t. Some (fst t) \<noteq> h) (intervals s)\<rparr>"

definition clearTimeout :: "nat option \<Rightarrow> SolarSystem \<Rightarrow> SolarSystem" where
  "clearTimeout h s = s\<lparr>timeouts := filter (\<lambda>t. Some t \<noteq> h) (timeouts s)\<rparr>"

text \<open>
  A load that succeeds registers the prefab, under its uri, in the container on which
  \<^verbatim>\<open>loadGltf\<close> was called.
\<close>

definition registerPrefab :: "nat \<Rightarrow> string \<Rightarrow> SolarSystem \<Rightarrow> SolarSystem" where
  "registerPrefab c uri s = s\<lparr>containers := (containers s)(c := containers s c @ [uri])\<rparr>"

section \<open>The periodic loops\<close>

definition animationPlayPause :: "string \<Rightarrow> SolarSystem \<Rightarrow> SolarSystem" where
  "animationPlayPause bodyName s =
     s\<lparr>intervals := intervals s @ [(nextTimer s, bodyName, LabelBob (celestialBodies s bodyName))],
       animationLoopIterval := Some (nextTimer s),
       nextTimer := Suc (nextTimer s)\<rparr>"

definition setLabelY :: "(real \<Rightarrow> real) \<Rightarrow> Actor \<Rightarrow> Actor" where
  "setLabelY f a =
     a\<lparr>localPosition :=
         Vector3 (vx (localPosition a)) (f (vy (localPosition a))) (vz (localPosition a))\<rparr>"

text \<open>
  The callback of \<^verbatim>\<open>animationPlayPause\<close>. With no captured body the first statement of
  either branch throws, before anything is changed.
\<close>

definition labelTick :: "CelestialBody option \<Rightarrow> SolarSystem \<Rightarrow> SolarSystem" where
  "labelTick celestialBody s =
     (case celestialBody of
        None \<Rightarrow> s
      | Some cb \<Rightarrow>
          if labelLoopInc s < 5 then
            (let s1 = updateActor (label cb) (setLabelY (\<lambda>y. y + 0.01)) s;
                 s2 = s1\<lparr>labelLoopInc := labelLoopInc s1 + 1\<rparr>
             in if labelLoopInc s2 = 5 then s2\<lparr>labelLoopInc := 10\<rparr> else s2)
          else
            (let s1 = updateActor (label cb) (setLabelY (\<lambda>y. y - 0.01)) s;
                 s2 = s1\<lparr>labelLoopInc := labelLoopInc s1 - 1\<rparr>
             in if labelLoopInc s2 = 5 then s2\<lparr>labelLoopInc := 0\<rparr> else s2))"

definition setRotationX :: "(real \<Rightarrow> real) \<Rightarrow> Actor \<Rightarrow> Actor" where
  "setRotationX f a =
     a\<lparr>localRotation :=
         Quaternion (f (qx (localRotation a))) (qy (localRotation a))
           (qz (localRotation a)) (qw (localRotation a))\<rparr>"

definition gearAnimation :: "string \<Rightarrow> SolarSystem \<Rightarrow> SolarSystem" where
  "gearAnimation bodyName s =
     s\<lparr>intervals := intervals s @
          [(nextTimer s, bodyName, GearOscillation (celestialBodies s bodyName))],
       nextTimer := Suc (nextTimer s)\<rparr>"

definition gearTick :: "CelestialBody option \<Rightarrow> SolarSystem \<Rightarrow> SolarSystem" where
  "gearTick celestialBody s =
     (case celestialBody of
        None \<Rightarrow> s
      | Some cb \<Rightarrow>
          if gearLoopInc s < 10 then
            (let s1 = updateActor (model cb) (setRotationX (\<lambda>r. r + 0.01)) s;
                 s2 = s1\<lparr>gearLoopInc := gearLoopInc s1 + 1\<rparr>
             in if gearLoopInc s2 = 10 then s2\<lparr>gearLoopInc := 20\<rparr> else s2)
          else
            (let s1 = updateActor (model cb) (setRotationX (\<lambda>r. r - 0.01)) s;
                 s2 = s1\<lparr>gearLoopInc := gearLoopInc s1 - 1\<rparr>
             in if gearLoopInc s2 = 10 then s2\<lparr>gearLoopInc := 0\<rparr> else s2))"

section \<open>The triggered animations\<close>

definition boxAnimationEnter :: "SolarSystem \<Rightarrow> outcome" where
  "boxAnimationEnter s =
     (let s1 = clearInterval (animationLoopIterval s) s;
          boxModel = celestialBodies s1 ''box_model_cloud'';
          gearModel = celestialBodies s1 ''only_gear''
      in case boxModel of
           None \<Rightarrow> Throws TypeError s1
         | Some b \<Rightarrow>
             (let s2 = Animation_AnimateTo (position b) (LocalPositionY 0.1) 1 s1
              in case gearModel of
                   None \<Rightarrow> Throws TypeError s2
                 | Some g \<Rightarrow>
                     Returns (Animation_AnimateTo (position g) (LocalPositionY 0.350) 1 s2)))"

definition shrinkScale :: "number Vector3Like" where
  "shrinkScale =
     (let scaleMultiplier = divide_number (Math_pow_third 0) 25
      in Vector3 (divide_number scaleMultiplier 2) (divide_number scaleMultiplier 2)
           (divide_number scaleMultiplier 2))"

definition boxAnimationExit :: "SolarSystem \<Rightarrow> outcome" where
  "boxAnimationExit s =
     (let boxModel = celestialBodies s ''box_model_cloud'';
          gearModel = celestialBodies s ''only_gear''
      in case boxModel of
           None \<Rightarrow> Throws TypeError s
         | Some b \<Rightarrow>
             (let s1 = Animation_AnimateTo (position b) (LocalPositionY 0) 1 s
              in case gearModel of
                   None \<Rightarrow> Throws TypeError s1
                 | Some g \<Rightarrow>
                     (let s2 = Animation_AnimateTo (position g) (LocalPositionY 0.250) 1 s1
                      in Returns
                           (s2\<lparr>timeouts := timeouts s2 @ [nextTimer s2],
                               childBoxTimeout := Some (nextTimer s2),
                               nextTimer := Suc (nextTimer s2)\<rparr>))))"

text \<open>The callback of the timeout that \<^verbatim>\<open>boxAnimationExit\<close> sets.\<close>

definition shrinkPopup :: "SolarSystem \<Rightarrow> outcome" where
  "shrinkPopup s =
     (case celestialBodies s ''popup_model'' of
        None \<Rightarrow> Throws TypeError s
      | Some p \<Rightarrow> Returns (Animation_AnimateTo (model p) (LocalScale shrinkScale) 1 s))"

definition popupScale :: "number Vector3Like" where
  "popupScale =
     (let scaleMultiplier = divide_number (Math_pow_third 1000) 25
      in Vector3 (divide_number scaleMultiplier 2) (divide_number scaleMultiplier 2)
           (divide_number scaleMultiplier 2))"

definition childModelDisplay :: "SolarSystem \<Rightarrow> outcome" where
  "childModelDisplay s =
     (let s1 = clearTimeout (childBoxTimeout s) s in
      case celestialBodies s1 ''popup_model'' of
        None \<Rightarrow> Throws TypeError s1
      | Some celestialBody \<Rightarrow>
          (let s2 = updateActor (model celestialBody) (\<lambda>a. a\<lparr>appearanceEnabled := True\<rparr>) s1
           in Returns (Animation_AnimateTo (model celestialBody) (LocalScale popupScale) 1 s2)))"

text \<open>The three handlers that \<^verbatim>\<open>createBody\<close> registers on a body's model.\<close>

definition onClick :: "string \<Rightarrow> SolarSystem \<Rightarrow> outcome" where
  "onClick bodyName s = childModelDisplay s"

definition onHoverEnter :: "string \<Rightarrow> SolarSystem \<Rightarrow> outcome" where
  "onHoverEnter bodyName s = boxAnimationEnter s"

definition onHoverExit :: "string \<Rightarrow> SolarSystem \<Rightarrow> outcome" where
  "onHoverExit bodyName s = boxAnimationExit (animationPlayPause bodyName s)"

section \<open>Building a body\<close>

definition assetUri :: "string \<Rightarrow> DatabaseRecord \<Rightarrow> string" where
  "assetUri bodyName facts = ''assets/'' @ bodyName @ ''.'' @ fileFormat facts"

definition scaleValue :: "DatabaseRecord \<Rightarrow> number Vector3Like" where
  "scaleValue facts =
     (let scaleMultiplier = divide_number (Math_pow_third (diameter facts)) 25
      in Vector3 (divide_number scaleMultiplier 2) (divide_number scaleMultiplier 2)
           (divide_number scaleMultiplier 2))"

text \<open>What follows the creation of the model actor, up to the end of the \<^verbatim>\<open>try\<close> block.\<close>

definition finishBody ::
  "string \<Rightarrow> DatabaseRecord \<Rightarrow> CelestialBody \<Rightarrow> SolarSystem \<Rightarrow> SolarSystem" where
  "finishBody bodyName facts cb s =
     (let s1 = updateActor (model cb) (\<lambda>a. a\<lparr>appearanceEnabled := appearance facts\<rparr>) s;
          s2 = updateActor (model cb) (\<lambda>a. a\<lparr>buttonBehavior := True\<rparr>) s1;
          s3 = updateActor (label cb) (\<lambda>a. a\<lparr>textContents := Some (name facts)\<rparr>) s2;
          s4 = s3\<lparr>celestialBodies := (celestialBodies s3)(bodyName \<mapsto> cb)\<rparr>;
          s5 = (if name facts \<noteq> []
                then (let t = animationPlayPause bodyName s4
                      in t\<lparr>handlers := handlers t @ [bodyName]\<rparr>)
                else s4)
      in if bodyName = ''only_gear''
         then s5\<lparr>assets := nextContainer s5, nextContainer := Suc (nextContainer s5),
                 boundAnimations := boundAnimations s5 @ [model cb]\<rparr>
         else s5)"

text \<open>The actor descriptions that \<^verbatim>\<open>createBody\<close> hands to the host, in its order.\<close>

definition inclinationActor :: "string \<Rightarrow> DatabaseRecord \<Rightarrow> Actor" where
  "inclinationActor bodyName facts =
     (newActor (bodyName @ ''-inclination'') None)
       \<lparr>appRotation := RotationAxisForward (inclinationDeg facts * DegreesToRadians)\<rparr>"

definition positionActor :: "string \<Rightarrow> DatabaseRecord \<Rightarrow> nat \<Rightarrow> Actor" where
  "positionActor bodyName facts i =
     (newActor (bodyName @ ''-position'') (Some i))
       \<lparr>localPosition := Vector3 (modelpositionxAxis facts) (modelpositionyAxis facts)
            (modelpositionzAxis facts)\<rparr>"

definition labelActor :: "string \<Rightarrow> DatabaseRecord \<Rightarrow> nat \<Rightarrow> Actor" where
  "labelActor bodyName facts p =
     (newActor (bodyName @ ''-label'') (Some p))
       \<lparr>localPosition := Vector3 (labelpositionxAxis facts) (labelpositionyAxis facts)
            (labelpositionzAxis facts)\<rparr>"

definition obliquity0Actor :: "string \<Rightarrow> nat \<Rightarrow> Actor" where
  "obliquity0Actor bodyName p = newActor (bodyName @ ''-obliquity0'') (Some p)"

definition obliquity1Actor :: "string \<Rightarrow> DatabaseRecord \<Rightarrow> nat \<Rightarrow> Actor" where
  "obliquity1Actor bodyName facts o0 =
     (newActor (bodyName @ ''-obliquity1'') (Some o0))
       \<lparr>localRotation := RotationAxisForward (obliquityDeg facts * DegreesToRadians)\<rparr>"

definition modelActor :: "string \<Rightarrow> DatabaseRecord \<Rightarrow> nat \<Rightarrow> string \<Rightarrow> Actor" where
  "modelActor bodyName facts o1 pf =
     (newActor (bodyName @ ''-body'') (Some o1))
       \<lparr>localScale := scaleValue facts,
        localRotation := Quaternion (modelrotationxAxis facts) (modelrotationyAxis facts)
            (modelrotationzAxis facts) 1,
        prefab := Some pf, colliderRadius := Some 0\<rparr>"

definition bodyOf :: "Suspended \<Rightarrow> nat \<Rightarrow> CelestialBody" where
  "bodyOf w m =
     \<lparr>inclination = sInclination w, position = sPosition w, obliquity0 = sObliquity0 w,
      obliquity1 = sObliquity1 w, model = m, label = sLabel w\<rparr>"

text \<open>The \<^verbatim>\<open>try\<close> block from the creation of the model on, the prefab being resolved.\<close>

definition createBody_rest ::
  "(string \<Rightarrow> string option) \<Rightarrow> Suspended \<Rightarrow> string \<Rightarrow> SolarSystem \<Rightarrow> outcome" where
  "createBody_rest fails w pf s6 =
     (case Actor_Create fails (modelActor (sBody w) (sFacts w) (sObliquity1 w) pf) s6 of
        Inl e \<Rightarrow> Throws e s6
      | Inr (m, s7) \<Rightarrow> Returns (finishBody (sBody w) (sFacts w) (bodyOf w m) s7))"

text \<open>
  The \<^verbatim>\<open>try\<close> block of \<^verbatim>\<open>createBody\<close>, as far as it runs at the call: to its end
  (\<open>Done\<close>) when a creation throws or the prefab is found, else to the \<^verbatim>\<open>await\<close> of
  \<^verbatim>\<open>loadGltf\<close> (\<open>Awaits\<close>), where the call is suspended and control returns.
\<close>

datatype progress = Done outcome | Awaits SolarSystem

definition createBody_try ::
  "(string \<Rightarrow> string option) \<Rightarrow> string \<Rightarrow> DatabaseRecord \<Rightarrow> SolarSystem \<Rightarrow> progress" where
  "createBody_try fails bodyName facts s0 =
     (case Actor_Create fails (inclinationActor bodyName facts) s0 of
        Inl e \<Rightarrow> Done (Throws e s0)
      | Inr (i, s1) \<Rightarrow>
     (case Actor_Create fails (positionActor bodyName facts i) s1 of
        Inl e \<Rightarrow> Done (Throws e s1)
      | Inr (p, s2) \<Rightarrow>
     (case Actor_Create fails (labelActor bodyName facts p) s2 of
        Inl e \<Rightarrow> Done (Throws e s2)
      | Inr (l, s3) \<Rightarrow>
     (case Actor_Create fails (obliquity0Actor bodyName p) s3 of
        Inl e \<Rightarrow> Done (Throws e s3)
      | Inr (o0, s4) \<Rightarrow>
     (case Actor_Create fails (obliquity1Actor bodyName facts o0) s4 of
        Inl e \<Rightarrow> Done (Throws e s4)
      | Inr (o1, s5) \<Rightarrow>
          (let w = \<lparr>sBody = bodyName, sFacts = facts, sInclination = i, sPosition = p,
                     sLabel = l, sObliquity0 = o0, sObliquity1 = o1, sContainer = assets s5\<rparr>;
               uri = assetUri bodyName facts
           in if uri \<in> set (containers s5 (assets s5))
              then Done (createBody_rest fails w uri s5)
              else Awaits (s5\<lparr>loads := loads s5 @ [uri],
                               awaiting := awaiting s5 @ [w]\<rparr>)))))))"

text \<open>The \<^verbatim>\<open>catch\<close> block of \<^verbatim>\<open>createBody\<close>.\<close>

definition caught :: "string \<Rightarrow> outcome \<Rightarrow> SolarSystem" where
  "caught bodyName r =
     (case r of
        Returns s \<Rightarrow> s
      | Throws e s \<Rightarrow> s\<lparr>logged := logged s @ [(bodyName, e)]\<rparr>)"

text \<open>
  The call \<^verbatim>\<open>createBody(bodyName)\<close>, up to where it returns its promise. \<open>Inl\<close> is an
  error outside the \<^verbatim>\<open>try\<close> block (the promise is rejected), which only the read of
  \<^verbatim>\<open>facts.diameter\<close> of a body that is not in the table can cause.
\<close>

definition createBody ::
  "(string \<Rightarrow> string option) \<Rightarrow> Database \<Rightarrow> string \<Rightarrow> SolarSystem \<Rightarrow> string + SolarSystem" where
  "createBody fails database bodyName s =
     (case map_of database bodyName of
        None \<Rightarrow> Inl TypeError
      | Some facts \<Rightarrow>
          Inr (case createBody_try fails bodyName facts s of
                 Done r \<Rightarrow> caught bodyName r
               | Awaits s' \<Rightarrow> s'))"

text \<open>
  The awaited load of a suspended call ends: it fails, and the error is thrown at the
  \<^verbatim>\<open>await\<close>, or the prefab is registered and the call runs on to its end.
\<close>

definition resume :: "(string \<Rightarrow> string option) \<Rightarrow> Suspended \<Rightarrow> SolarSystem \<Rightarrow> SolarSystem" where
  "resume fails w s =
     (let uri = assetUri (sBody w) (sFacts w) in
      case fails uri of
        Some e \<Rightarrow> caught (sBody w) (Throws e s)
      | None \<Rightarrow>
          caught (sBody w) (createBody_rest fails w uri (registerPrefab (sContainer w) uri s)))"

fun createBodies ::
  "(string \<Rightarrow> string option) \<Rightarrow> Database \<Rightarrow> string list \<Rightarrow> SolarSystem \<Rightarrow> SolarSystem" where
  "createBodies fails database [] s = s"
| "createBodies fails database (bodyName # keys) s =
     createBodies fails database keys
       (case createBody fails database bodyName s of Inl e \<Rightarrow> s | Inr s' \<Rightarrow> s')"

text \<open>\<^verbatim>\<open>createSolarSystem\<close>: the calls of \<^verbatim>\<open>createBody\<close> are not awaited.\<close>

definition createSolarSystem ::
  "(string \<Rightarrow> string option) \<Rightarrow> Database \<Rightarrow> SolarSystem \<Rightarrow> SolarSystem" where
  "createSolarSystem fails database s = createBodies fails database (Object_keys database) s"

section \<open>Events after start-up\<close>

datatype event =
    Loaded nat
  | Tick nat
  | Timeout nat
  | HoverEnter string
  | HoverExit string
  | Click string

fun runCallback :: "callback \<Rightarrow> SolarSystem \<Rightarrow> SolarSystem" where
  "runCallback (LabelBob cb) s = labelTick cb s"
| "runCallback (GearOscillation cb) s = gearTick cb s"

text \<open>
  One event of the host's loop: the end of the \<open>k\<close>-th awaited load, a tick of a timer,
  a timeout, or a pointer event on a body. A load that nobody awaits, a tick of a timer
  that is not running, a timeout that is not pending and a pointer event on a body
  without handlers do nothing. An error thrown by a handler or a callback ends it; the
  state it reached stays.
\<close>

fun step :: "(string \<Rightarrow> string option) \<Rightarrow> event \<Rightarrow> SolarSystem \<Rightarrow> SolarSystem" where
  "step fails (Loaded k) s =
     (if k < length (awaiting s)
      then resume fails (awaiting s ! k)
             (s\<lparr>awaiting := take k (awaiting s) @ drop (Suc k) (awaiting s)\<rparr>)
      else s)"
| "step fails (Tick h) s =
     (case find (\<lambda>t. fst t = h) (intervals s) of
        None \<Rightarrow> s
      | Some t \<Rightarrow> runCallback (snd (snd t)) s)"
| "step fails (Timeout h) s =
     (if h \<in> set (timeouts s)
      then state_of (shrinkPopup (s\<lparr>timeouts := filter (\<lambda>t. t \<noteq> h) (timeouts s)\<rparr>))
      else s)"
| "step fails (HoverEnter b) s =
     (if b \<in> set (handlers s) then state_of (onHoverEnter b s) else s)"
| "step fails (HoverExit b) s =
     (if b \<in> set (handlers s) then state_of (onHoverExit b s) else s)"
| "step fails (Click b) s = (if b \<in> set (handlers s) then state_of (onClick b s) else s)"

fun run :: "(string \<Rightarrow> string option) \<Rightarrow> event list \<Rightarrow> SolarSystem \<Rightarrow> SolarSystem" where
  "run fails [] s = s"
| "run fails (e # es) s = run fails es (step fails e s)"

section \<open>Construction, step by step\<close>

text \<open>\<open>hostOnly s s'\<close>: from \<open>s\<close> to \<open>s'\<close> only the host's actors and assets grew.\<close>

definition hostOnly :: "SolarSystem \<Rightarrow> SolarSystem \<Rightarrow> bool" where
  "hostOnly s s' \<longleftrightarrow>
     s' = s\<lparr>actors := actors s', nextActor := nextActor s', containers := containers s'\<rparr> \<and>
     nextActor s \<le> nextActor s' \<and> (\<forall>i<nextActor s. actors s' i = actors s i)"

text \<open>
  The locals of a call that created its first five nodes when the next free reference
  was \<open>n\<close> and the current container was \<open>c\<close>.
\<close>

definition suspendedAt :: "string \<Rightarrow> DatabaseRecord \<Rightarrow> nat \<Rightarrow> nat \<Rightarrow> Suspended" where
  "suspendedAt b facts n c =
     \<lparr>sBody = b, sFacts = facts, sInclination = n, sPosition = Suc n, sLabel = Suc (Suc n),
      sObliquity0 = Suc (Suc (Suc n)), sObliquity1 = Suc (Suc (Suc (Suc n))), sContainer = c\<rparr>"

text \<open>The state when the first five creations of \<open>createBody_try\<close> have succeeded.\<close>

definition prefixBuilt :: "string \<Rightarrow> DatabaseRecord \<Rightarrow> SolarSystem \<Rightarrow> SolarSystem" where
  "prefixBuilt b facts s =
     addActor (obliquity1Actor b facts (Suc (Suc (Suc (nextActor s)))))
       (addActor (obliquity0Actor b (Suc (nextActor s)))
         (addActor (labelActor b facts (Suc (nextActor s)))
           (addActor (positionActor b facts (nextActor s))
             (addActor (inclinationActor b facts) s))))"

definition prefixOK :: "(string \<Rightarrow> string option) \<Rightarrow> string \<Rightarrow> bool" where
  "prefixOK fails b \<longleftrightarrow>
     fails (b @ ''-inclination'') = None \<and> fails (b @ ''-position'') = None \<and>
     fails (b @ ''-label'') = None \<and> fails (b @ ''-obliquity0'') = None \<and>
     fails (b @ ''-obliquity1'') = None"

text \<open>The state when the model of a suspended call is created and the body finished.\<close>

definition completed :: "Suspended \<Rightarrow> SolarSystem \<Rightarrow> SolarSystem" where
  "completed w s =
     finishBody (sBody w) (sFacts w) (bodyOf w (nextActor s))
       (addActor (modelActor (sBody w) (sFacts w) (sObliquity1 w)
                    (assetUri (sBody w) (sFacts w))) s)"

lemma hostOnly_refl: "hostOnly s s"
  by (simp add: hostOnly_def)

lemma hostOnly_trans:
  assumes a: "hostOnly s t" and b: "hostOnly t u"
  shows "hostOnly s u"
proof -
  from a have t: "t = s\<lparr>actors := actors t, nextActor := nextActor t,
            containers := containers t\<rparr>" by (simp add: hostOnly_def)
  from b have u: "u = t\<lparr>actors := actors u, nextActor := nextActor u,
            containers := containers u\<rparr>" by (simp add: hostOnly_def)
  have "u = s\<lparr>actors := actors u, nextActor := nextActor u, containers := containers u\<rparr>"
    by (subst u, subst t) simp
  moreover have "nextActor s \<le> nextActor u" using a b by (simp add: hostOnly_def)
  moreover have "\<forall>i<nextActor s. actors u i = actors s i" using a b by (auto simp: hostOnly_def)
  ultimately show ?thesis by (simp add: hostOnly_def)
qed

lemma hostOnly_fields:
  assumes "hostOnly s s'"
  shows "celestialBodies s' = celestialBodies s" "assets s' = assets s"
    "labelLoopInc s' = labelLoopInc s" "gearLoopInc s' = gearLoopInc s"
    "animationLoopIterval s' = animationLoopIterval s" "childBoxTimeout s' = childBoxTimeout s"
    "nextContainer s' = nextContainer s" "loads s' = loads s" "awaiting s' = awaiting s"
    "intervals s' = intervals s" "timeouts s' = timeouts s" "nextTimer s' = nextTimer s"
    "animations s' = animations s" "boundAnimations s' = boundAnimations s"
    "handlers s' = handlers s" "logged s' = logged s"
proof -
  from assms have e: "s' = s\<lparr>actors := actors s', nextActor := nextActor s',
            containers := containers s'\<rparr>" by (simp add: hostOnly_def)
  show "celestialBodies s' = celestialBodies s" by (subst e) simp
  show "assets s' = assets s" by (subst e) simp
  show "labelLoopInc s' = labelLoopInc s" by (subst e) simp
  show "gearLoopInc s' = gearLoopInc s" by (subst e) simp
  show "animationLoopIterval s' = animationLoopIterval s" by (subst e) simp
  show "childBoxTimeout s' = childBoxTimeout s" by (subst e) simp
  show "nextContainer s' = nextContainer s" by (subst e) simp
  show "loads s' = loads s" by (subst e) simp
  show "awaiting s' = awaiting s" by (subst e) simp
  show "intervals s' = intervals s" by (subst e) simp
  show "timeouts s' = timeouts s" by (subst e) simp
  show "nextTimer s' = nextTimer s" by (subst e) simp
  show "animations s' = animations s" by (subst e) simp
  show "boundAnimations s' = boundAnimations s" by (subst e) simp
  show "handlers s' = handlers s" by (subst e) simp
  show "logged s' = logged s" by (subst e) simp
qed

lemma hostOnly_addActor: "hostOnly s (addActor a s)"
  by (simp add: hostOnly_def addActor_def)

lemma hostOnly_registerPrefab: "hostOnly s (registerPrefab c u s)"
  by (simp add: hostOnly_def registerPrefab_def)

lemma hostOnly_prefixBuilt: "hostOnly s (prefixBuilt b facts s)"
  unfolding prefixBuilt_def
  by ((rule hostOnly_trans[rotated], rule hostOnly_addActor)+, rule hostOnly_refl)

lemmas prefixBuilt_fields = hostOnly_fields [OF hostOnly_prefixBuilt]
lemmas registerPrefab_fields = hostOnly_fields [OF hostOnly_registerPrefab]
lemmas addActor_fields = hostOnly_fields [OF hostOnly_addActor]

lemma Actor_Create_Inr:
  "Actor_Create fails a s = Inr (i, s') \<Longrightarrow>
     fails (actorName a) = None \<and> i = nextActor s \<and> s' = addActor a s"
  by (auto simp: Actor_Create_def split: option.splits)

lemma Actor_Create_None:
  "fails (actorName a) = None \<Longrightarrow> Actor_Create fails a s = Inr (nextActor s, addActor a s)"
  by (simp add: Actor_Create_def)

lemma Actor_Create_Some:
  "fails (actorName a) = Some e \<Longrightarrow> Actor_Create fails a s = Inl e"
  by (simp add: Actor_Create_def)

lemma nextActor_addActor: "nextActor (addActor a s) = Suc (nextActor s)"
  by (simp add: addActor_def)

lemma containers_addActor: "containers (addActor a s) = containers s"
  by (simp add: addActor_def)

lemma actors_addActor:
  "actors (addActor a s) i = (if i = nextActor s then Some a else actors s i)"
  by (simp add: addActor_def)

lemma nextActor_prefixBuilt: "nextActor (prefixBuilt b facts s) = nextActor s + 5"
  by (simp add: prefixBuilt_def nextActor_addActor)

lemma containers_prefixBuilt: "containers (prefixBuilt b facts s) = containers s"
  by (simp add: prefixBuilt_def addActor_def)

lemma actorName_simps:
  "actorName (inclinationActor b facts) = b @ ''-inclination''"
  "actorName (positionActor b facts i) = b @ ''-position''"
  "actorName (labelActor b facts p) = b @ ''-label''"
  "actorName (obliquity0Actor b p) = b @ ''-obliquity0''"
  "actorName (obliquity1Actor b facts o0) = b @ ''-obliquity1''"
  "actorName (modelActor b facts o1 pf) = b @ ''-body''"
  by (simp_all add: inclinationActor_def positionActor_def labelActor_def obliquity0Actor_def
      obliquity1Actor_def modelActor_def newActor_def)

lemma createBody_rest_eq:
  "createBody_rest fails w (assetUri (sBody w) (sFacts w)) s =
     (case fails (sBody w @ ''-body'') of
        Some e \<Rightarrow> Throws e s
      | None \<Rightarrow> Returns (completed w s))"
  by (simp add: createBody_rest_def completed_def Actor_Create_def actorName_simps
      split: option.splits)

lemma suspendedAt_simps:
  "sBody (suspendedAt b facts n c) = b" "sFacts (suspendedAt b facts n c) = facts"
  "sInclination (suspendedAt b facts n c) = n" "sPosition (suspendedAt b facts n c) = Suc n"
  "sLabel (suspendedAt b facts n c) = Suc (Suc n)"
  "sObliquity0 (suspendedAt b facts n c) = Suc (Suc (Suc n))"
  "sObliquity1 (suspendedAt b facts n c) = Suc (Suc (Suc (Suc n)))"
  "sContainer (suspendedAt b facts n c) = c"
  by (simp_all add: suspendedAt_def)

lemma createBody_try_prefixOK:
  assumes "prefixOK fails b"
  shows "createBody_try fails b facts s =
     (if assetUri b facts \<in> set (containers s (assets s))
      then Done (createBody_rest fails (suspendedAt b facts (nextActor s) (assets s))
                   (assetUri b facts) (prefixBuilt b facts s))
      else Awaits ((prefixBuilt b facts s)
                     \<lparr>loads := loads s @ [assetUri b facts],
                      awaiting := awaiting s @ [suspendedAt b facts (nextActor s) (assets s)]\<rparr>))"
  using assms unfolding createBody_try_def
  by (simp add: Actor_Create_None actorName_simps prefixOK_def prefixBuilt_def Let_def
      suspendedAt_def nextActor_addActor addActor_fields containers_addActor)

lemma createBody_try_prefix_fails:
  assumes "\<not> prefixOK fails b"
  shows "\<exists>e s'. createBody_try fails b facts s = Done (Throws e s') \<and> hostOnly s s'"
proof -
  have h: "hostOnly s (addActor a1 s)"
    "hostOnly s (addActor a2 (addActor a1 s))"
    "hostOnly s (addActor a3 (addActor a2 (addActor a1 s)))"
    "hostOnly s (addActor a4 (addActor a3 (addActor a2 (addActor a1 s))))"
    for a1 a2 a3 a4
    by ((rule hostOnly_trans[rotated], rule hostOnly_addActor)+, rule hostOnly_refl)+
  show ?thesis
  proof (cases "fails (b @ ''-inclination'')")
    case (Some e)
    then show ?thesis
      unfolding createBody_try_def
      by (simp add: Actor_Create_Some actorName_simps hostOnly_refl)
  next
    case n1: None
    show ?thesis
    proof (cases "fails (b @ ''-position'')")
      case (Some e)
      with n1 show ?thesis
        unfolding createBody_try_def
        by (simp add: Actor_Create_Some Actor_Create_None actorName_simps h)
    next
      case n2: None
      show ?thesis
      proof (cases "fails (b @ ''-label'')")
        case (Some e)
        with n1 n2 show ?thesis
          unfolding createBody_try_def
          by (simp add: Actor_Create_Some Actor_Create_None actorName_simps h)
      next
        case n3: None
        show ?thesis
        proof (cases "fails (b @ ''-obliquity0'')")
          case (Some e)
          with n1 n2 n3 show ?thesis
            unfolding createBody_try_def
            by (simp add: Actor_Create_Some Actor_Create_None actorName_simps h)
        next
          case n4: None
          with assms n1 n2 n3 obtain e where "fails (b @ ''-obliquity1'') = Some e"
            by (auto simp: prefixOK_def)
          with n1 n2 n3 n4 show ?thesis
            unfolding createBody_try_def
            by (simp add: Actor_Create_Some Actor_Create_None actorName_simps h)
        qed
      qed
    qed
  qed
qed

lemmas step_defs = onClick_def onHoverEnter_def onHoverExit_def boxAnimationEnter_def
  boxAnimationExit_def childModelDisplay_def shrinkPopup_def animationPlayPause_def
  clearInterval_def clearTimeout_def Animation_AnimateTo_def updateActor_def Let_def

lemma finishBody_fields:
  "labelLoopInc (finishBody b facts cb s) = labelLoopInc s"
  "gearLoopInc (finishBody b facts cb s) = gearLoopInc s"
  "nextActor (finishBody b facts cb s) = nextActor s"
  "timeouts (finishBody b facts cb s) = timeouts s"
  "childBoxTimeout (finishBody b facts cb s) = childBoxTimeout s"
  "animations (finishBody b facts cb s) = animations s"
  "loads (finishBody b facts cb s) = loads s"
  "awaiting (finishBody b facts cb s) = awaiting s"
  "containers (finishBody b facts cb s) = containers s"
  "logged (finishBody b facts cb s) = logged s"
  "celestialBodies (finishBody b facts cb s) = (celestialBodies s)(b \<mapsto> cb)"
  "intervals (finishBody b facts cb s) =
     (if name facts \<noteq> [] then intervals s @ [(nextTimer s, b, LabelBob (Some cb))]
      else intervals s)"
  "nextTimer (finishBody b facts cb s) =
     (if name facts \<noteq> [] then Suc (nextTimer s) else nextTimer s)"
  "animationLoopIterval (finishBody b facts cb s) =
     (if name facts \<noteq> [] then Some (nextTimer s) else animationLoopIterval s)"
  "handlers (finishBody b facts cb s) =
     (if name facts \<noteq> [] then handlers s @ [b] else handlers s)"
  "assets (finishBody b facts cb s) = (if b = ''only_gear'' then nextContainer s else assets s)"
  "nextContainer (finishBody b facts cb s) =
     (if b = ''only_gear'' then Suc (nextContainer s) else nextContainer s)"
  "boundAnimations (finishBody b facts cb s) =
     (if b = ''only_gear'' then boundAnimations s @ [model cb] else boundAnimations s)"
  by (simp_all add: finishBody_def Let_def updateActor_def animationPlayPause_def)

lemma completed_fields:
  "labelLoopInc (completed w s) = labelLoopInc s"
  "gearLoopInc (completed w s) = gearLoopInc s"
  "nextActor (completed w s) = Suc (nextActor s)"
  "timeouts (completed w s) = timeouts s"
  "childBoxTimeout (completed w s) = childBoxTimeout s"
  "animations (completed w s) = animations s"
  "loads (completed w s) = loads s"
  "awaiting (completed w s) = awaiting s"
  "containers (completed w s) = containers s"
  "logged (completed w s) = logged s"
  "celestialBodies (completed w s) = (celestialBodies s)(sBody w \<mapsto> bodyOf w (nextActor s))"
  "intervals (completed w s) =
     (if name (sFacts w) \<noteq> []
      then intervals s @ [(nextTimer s, sBody w, LabelBob (Some (bodyOf w (nextActor s))))]
      else intervals s)"
  "nextTimer (completed w s) =
     (if name (sFacts w) \<noteq> [] then Suc (nextTimer s) else nextTimer s)"
  "animationLoopIterval (completed w s) =
     (if name (sFacts w) \<noteq> [] then Some (nextTimer s) else animationLoopIterval s)"
  "handlers (completed w s) =
     (if name (sFacts w) \<noteq> [] then handlers s @ [sBody w] else handlers s)"
  "assets (completed w s) = (if sBody w = ''only_gear'' then nextContainer s else assets s)"
  "nextContainer (completed w s) =
     (if sBody w = ''only_gear'' then Suc (nextContainer s) else nextContainer s)"
  "boundAnimations (completed w s) =
     (if sBody w = ''only_gear'' then boundAnimations s @ [nextActor s] else boundAnimations s)"
  by (simp_all add: completed_def finishBody_fields addActor_fields nextActor_addActor
      containers_addActor bodyOf_def)

text \<open>What one call of \<open>createBody\<close> does to a state, whatever fails.\<close>

lemma createBody_cases:
  assumes "createBody fails db b s = Inr s'"
  obtains (prefix_failed) facts e s1 where "map_of db b = Some facts" "\<not> prefixOK fails b"
      "hostOnly s s1" "s' = s1\<lparr>logged := logged s1 @ [(b, e)]\<rparr>"
  | (suspended) facts where "map_of db b = Some facts" "prefixOK fails b"
      "assetUri b facts \<notin> set (containers s (assets s))"
      "s' = (prefixBuilt b facts s)
              \<lparr>loads := loads s @ [assetUri b facts],
               awaiting := awaiting s @ [suspendedAt b facts (nextActor s) (assets s)]\<rparr>"
  | (model_failed) facts e where "map_of db b = Some facts" "prefixOK fails b"
      "assetUri b facts \<in> set (containers s (assets s))" "fails (b @ ''-body'') = Some e"
      "s' = (prefixBuilt b facts s)\<lparr>logged := logged s @ [(b, e)]\<rparr>"
  | (built) facts where "map_of db b = Some facts" "prefixOK fails b"
      "assetUri b facts \<in> set (containers s (assets s))" "fails (b @ ''-body'') = None"
      "s' = completed (suspendedAt b facts (nextActor s) (assets s)) (prefixBuilt b facts s)"
proof -
  from assms obtain facts where f: "map_of db b = Some facts"
    and s': "s' = (case createBody_try fails b facts s of
                 Done r \<Rightarrow> caught b r | Awaits t \<Rightarrow> t)"
    by (auto simp: createBody_def split: option.splits)
  show ?thesis
  proof (cases "prefixOK fails b")
    case False
    from createBody_try_prefix_fails [OF False, of facts s] obtain e s1 where
      "createBody_try fails b facts s = Done (Throws e s1)" "hostOnly s s1" by blast
    with s' f False show ?thesis
      by (intro prefix_failed [of facts s1 e]) (simp_all add: caught_def)
  next
    case True
    note t = createBody_try_prefixOK [OF True, of facts s]
    let ?w = "suspendedAt b facts (nextActor s) (assets s)"
    have r: "createBody_rest fails ?w (assetUri b facts) (prefixBuilt b facts s) =
       (case fails (b @ ''-body'') of
          Some e \<Rightarrow> Throws e (prefixBuilt b facts s)
        | None \<Rightarrow> Returns (completed ?w (prefixBuilt b facts s)))"
      using createBody_rest_eq [of fails ?w "prefixBuilt b facts s"]
      by (simp add: suspendedAt_simps)
    show ?thesis
    proof (cases "assetUri b facts \<in> set (containers s (assets s))")
      case False
      with s' t f True show ?thesis by (intro suspended [of facts]) simp_all
    next
      case c: True
      show ?thesis
      proof (cases "fails (b @ ''-body'')")
        case None
        with s' t r c f True show ?thesis
          by (intro built [of facts]) (simp_all add: caught_def)
      next
        case (Some e)
        with s' t r c f True show ?thesis
          by (intro model_failed [of facts e]) (simp_all add: caught_def prefixBuilt_fields)
      qed
    qed
  qed
qed

text \<open>What the end of an awaited load does.\<close>

lemma resume_cases:
  obtains (load_failed) e where "fails (assetUri (sBody w) (sFacts w)) = Some e"
      "resume fails w s = s\<lparr>logged := logged s @ [(sBody w, e)]\<rparr>"
  | (model_failed) e where "fails (assetUri (sBody w) (sFacts w)) = None"
      "fails (sBody w @ ''-body'') = Some e"
      "resume fails w s =
         (registerPrefab (sContainer w) (assetUri (sBody w) (sFacts w)) s)
           \<lparr>logged := logged s @ [(sBody w, e)]\<rparr>"
  | (built) "fails (assetUri (sBody w) (sFacts w)) = None" "fails (sBody w @ ''-body'') = None"
      "resume fails w s =
         completed w (registerPrefab (sContainer w) (assetUri (sBody w) (sFacts w)) s)"
proof (cases "fails (assetUri (sBody w) (sFacts w))")
  case (Some e)
  then show ?thesis by (intro load_failed [of e]) (simp_all add: resume_def caught_def)
next
  case n: None
  show ?thesis
  proof (cases "fails (sBody w @ ''-body'')")
    case None
    with n show ?thesis
      by (intro built) (simp_all add: resume_def caught_def createBody_rest_eq)
  next
    case (Some e)
    with n show ?thesis
      by (intro model_failed [of e])
        (simp_all add: resume_def caught_def createBody_rest_eq registerPrefab_fields)
  qed
qed

section \<open>What never changes of a node\<close>

text \<open>
  The part of an actor that nothing changes once the actor is created: its name, parent,
  orbital rotation, scale, prefab and collider.
\<close>

definition core ::
  "Actor \<Rightarrow> string \<times> nat option \<times> Quaternion \<times> number Vector3Like \<times> string option \<times> real option"
  where
  "core a = (actorName a, parentId a, appRotation a, localScale a, prefab a, colliderRadius a)"

definition coreOf ::
  "SolarSystem \<Rightarrow> nat \<Rightarrow>
     (string \<times> nat option \<times> Quaternion \<times> number Vector3Like \<times> string option \<times> real option) option"
  where
  "coreOf s i = map_option core (actors s i)"

definition extends :: "SolarSystem \<Rightarrow> SolarSystem \<Rightarrow> bool" where
  "extends s s' \<longleftrightarrow> nextActor s \<le> nextActor s' \<and> (\<forall>i<nextActor s. coreOf s' i = coreOf s i)"

lemma extends_refl: "extends s s"
  by (simp add: extends_def)

lemma extends_trans: "extends s t \<Longrightarrow> extends t u \<Longrightarrow> extends s u"
  by (auto simp: extends_def)

lemma extends_hostOnly: "hostOnly s s' \<Longrightarrow> extends s s'"
  by (simp add: hostOnly_def extends_def coreOf_def)

lemma extends_same:
  "nextActor s' = nextActor s \<Longrightarrow> (\<And>i. coreOf s' i = coreOf s i) \<Longrightarrow> extends s s'"
  by (simp add: extends_def)

lemma coreOf_updateActor:
  "(\<And>a. core (f a) = core a) \<Longrightarrow> coreOf (updateActor j f s) i = coreOf s i"
  by (simp add: coreOf_def updateActor_def option.map_comp comp_def)

lemma coreOf_finishBody: "coreOf (finishBody b facts cb s) i = coreOf s i"
  by (simp add: coreOf_def finishBody_def Let_def updateActor_def animationPlayPause_def
      option.map_comp comp_def core_def [abs_def])

lemma coreOf_addActor:
  "coreOf (addActor a s) i = (if i = nextActor s then Some (core a) else coreOf s i)"
  by (simp add: coreOf_def actors_addActor)

lemma coreOf_completed:
  "coreOf (completed w s) i =
     (if i = nextActor s
      then Some (core (modelActor (sBody w) (sFacts w) (sObliquity1 w)
                   (assetUri (sBody w) (sFacts w))))
      else coreOf s i)"
  by (simp add: completed_def coreOf_finishBody coreOf_addActor)

lemma extends_completed: "extends s (completed w s)"
  by (simp add: extends_def coreOf_completed completed_fields)

lemma extends_logged: "extends s (s\<lparr>logged := l\<rparr>)"
  by (simp add: extends_def coreOf_def)

lemma extends_awaiting: "extends s (s\<lparr>awaiting := l\<rparr>)"
  by (simp add: extends_def coreOf_def)

lemma extends_suspend: "extends s (s\<lparr>loads := l, awaiting := a\<rparr>)"
  by (simp add: extends_def coreOf_def)

lemma extends_createBody:
  assumes "createBody fails db b s = Inr s'"
  shows "extends s s'"
  using assms
proof (cases rule: createBody_cases)
  case (prefix_failed facts e s1)
  then show ?thesis
    by (auto intro: extends_trans [OF extends_hostOnly extends_logged])
next
  case (suspended facts)
  then show ?thesis
    by (auto intro: extends_trans [OF extends_hostOnly [OF hostOnly_prefixBuilt] extends_suspend])
next
  case (model_failed facts e)
  then show ?thesis
    by (auto intro: extends_trans [OF extends_hostOnly [OF hostOnly_prefixBuilt] extends_logged])
next
  case (built facts)
  then show ?thesis
    by (auto intro: extends_trans [OF extends_hostOnly [OF hostOnly_prefixBuilt]
          extends_completed])
qed

lemma extends_resume: "extends s (resume fails w s)"
proof (cases rule: resume_cases [of fails w s])
  case (load_failed e)
  then show ?thesis by (simp add: extends_logged)
next
  case (model_failed e)
  then show ?thesis
    by (auto intro: extends_trans [OF extends_hostOnly [OF hostOnly_registerPrefab]
          extends_logged])
next
  case built
  then show ?thesis
    by (auto intro: extends_trans [OF extends_hostOnly [OF hostOnly_registerPrefab]
          extends_completed])
qed

lemma labelTick_core:
  "coreOf (labelTick c s) i = coreOf s i \<and> nextActor (labelTick c s) = nextActor s"
  by (cases c)
    (simp_all add: labelTick_def Let_def coreOf_def updateActor_def setLabelY_def
      option.map_comp comp_def core_def [abs_def])

lemma gearTick_core:
  "coreOf (gearTick c s) i = coreOf s i \<and> nextActor (gearTick c s) = nextActor s"
  by (cases c)
    (simp_all add: gearTick_def Let_def coreOf_def updateActor_def setRotationX_def
      option.map_comp comp_def core_def [abs_def])

lemma extends_step: "extends s (step fails e s)"
proof (cases e)
  case (Loaded k)
  show ?thesis
  proof (cases "k < length (awaiting s)")
    case True
    with Loaded show ?thesis
      by (auto intro: extends_trans [OF extends_awaiting extends_resume])
  next
    case False
    with Loaded show ?thesis by (simp add: extends_refl)
  qed
next
  case (Tick h)
  show ?thesis
  proof (cases "find (\<lambda>t. fst t = h) (intervals s)")
    case None
    with Tick show ?thesis by (simp add: extends_refl)
  next
    case (Some t)
    then show ?thesis using Tick
      by (cases "snd (snd t)") (simp_all add: extends_def labelTick_core gearTick_core)
  qed
next
  case (Timeout h)
  then show ?thesis
    by (simp add: extends_def step_defs coreOf_def split: option.splits)
next
  case (HoverEnter b)
  then show ?thesis
    by (simp add: extends_def step_defs coreOf_def split: option.splits)
next
  case (HoverExit b)
  then show ?thesis
    by (simp add: extends_def step_defs coreOf_def split: option.splits)
next
  case (Click b)
  then show ?thesis
    by (simp add: extends_def step_defs coreOf_def option.map_comp comp_def core_def [abs_def]
        split: option.splits)
qed

section \<open>The nodes of a body\<close>

text \<open>The five nodes of a suspended call are those that \<open>createBody\<close> builds first.\<close>

definition prefixAs :: "SolarSystem \<Rightarrow> Suspended \<Rightarrow> bool" where
  "prefixAs s w \<longleftrightarrow>
     coreOf s (sInclination w) = Some (core (inclinationActor (sBody w) (sFacts w))) \<and>
     coreOf s (sPosition w) =
       Some (core (positionActor (sBody w) (sFacts w) (sInclination w))) \<and>
     coreOf s (sLabel w) = Some (core (labelActor (sBody w) (sFacts w) (sPosition w))) \<and>
     coreOf s (sObliquity0 w) = Some (core (obliquity0Actor (sBody w) (sPosition w))) \<and>
     coreOf s (sObliquity1 w) =
       Some (core (obliquity1Actor (sBody w) (sFacts w) (sObliquity0 w))) \<and>
     sInclination w < nextActor s \<and> sPosition w < nextActor s \<and> sLabel w < nextActor s \<and>
     sObliquity0 w < nextActor s \<and> sObliquity1 w < nextActor s"

text \<open>
  The six nodes \<open>cb\<close> are, in what never changes of them, those that \<open>createBody\<close>
  builds for \<open>b\<close> from its record.
\<close>

definition nodesAs :: "SolarSystem \<Rightarrow> string \<Rightarrow> DatabaseRecord \<Rightarrow> CelestialBody \<Rightarrow> bool" where
  "nodesAs s b facts cb \<longleftrightarrow>
     coreOf s (inclination cb) = Some (core (inclinationActor b facts)) \<and>
     coreOf s (position cb) = Some (core (positionActor b facts (inclination cb))) \<and>
     coreOf s (label cb) = Some (core (labelActor b facts (position cb))) \<and>
     coreOf s (obliquity0 cb) = Some (core (obliquity0Actor b (position cb))) \<and>
     coreOf s (obliquity1 cb) = Some (core (obliquity1Actor b facts (obliquity0 cb))) \<and>
     coreOf s (model cb) =
       Some (core (modelActor b facts (obliquity1 cb) (assetUri b facts))) \<and>
     inclination cb < nextActor s \<and> position cb < nextActor s \<and> label cb < nextActor s \<and>
     obliquity0 cb < nextActor s \<and> obliquity1 cb < nextActor s \<and> model cb < nextActor s"

text \<open>
  The invariant of start-up and of every event after it: each suspended call is for a
  body of the table, its five creations succeeded and its five nodes stand; each
  registered body is a body of the table with its six nodes.
\<close>

lemma prefixAs_extends: "extends s s' \<Longrightarrow> prefixAs s w \<Longrightarrow> prefixAs s' w"
  by (auto simp: extends_def prefixAs_def)

lemma nodesAs_extends: "extends s s' \<Longrightarrow> nodesAs s b facts cb \<Longrightarrow> nodesAs s' b facts cb"
  by (auto simp: extends_def nodesAs_def)

definition suspendedOK ::
  "(string \<Rightarrow> string option) \<Rightarrow> Database \<Rightarrow> SolarSystem \<Rightarrow> Suspended \<Rightarrow> bool" where
  "suspendedOK fails db s w \<longleftrightarrow>
     map_of db (sBody w) = Some (sFacts w) \<and> prefixOK fails (sBody w) \<and> prefixAs s w"

definition registeredOK :: "Database \<Rightarrow> SolarSystem \<Rightarrow> string \<Rightarrow> CelestialBody \<Rightarrow> bool" where
  "registeredOK db s b cb \<longleftrightarrow> (\<exists>facts. map_of db b = Some facts \<and> nodesAs s b facts cb)"

definition sceneInv :: "(string \<Rightarrow> string option) \<Rightarrow> Database \<Rightarrow> SolarSystem \<Rightarrow> bool" where
  "sceneInv fails db s \<longleftrightarrow>
     (\<forall>w \<in> set (awaiting s). suspendedOK fails db s w) \<and>
     (\<forall>b cb. celestialBodies s b = Some cb \<longrightarrow> registeredOK db s b cb)"

lemma suspendedOK_extends:
  "extends s s' \<Longrightarrow> suspendedOK fails db s w \<Longrightarrow> suspendedOK fails db s' w"
  by (auto simp: suspendedOK_def intro: prefixAs_extends)

lemma registeredOK_extends:
  "extends s s' \<Longrightarrow> registeredOK db s b cb \<Longrightarrow> registeredOK db s' b cb"
  by (auto simp: registeredOK_def intro: nodesAs_extends)

lemma sceneInvI:
  "(\<And>w. w \<in> set (awaiting s) \<Longrightarrow> suspendedOK fails db s w) \<Longrightarrow>
   (\<And>b cb. celestialBodies s b = Some cb \<Longrightarrow> registeredOK db s b cb) \<Longrightarrow>
   sceneInv fails db s"
  by (simp add: sceneInv_def)

lemma sceneInv_suspended:
  "sceneInv fails db s \<Longrightarrow> w \<in> set (awaiting s) \<Longrightarrow> suspendedOK fails db s w"
  by (simp add: sceneInv_def)

lemma sceneInv_registered:
  "sceneInv fails db s \<Longrightarrow> celestialBodies s b = Some cb \<Longrightarrow> registeredOK db s b cb"
  by (simp add: sceneInv_def)

lemma coreOf_prefixBuilt:
  "coreOf (prefixBuilt b facts s) i =
     (if i = Suc (Suc (Suc (Suc (nextActor s))))
        then Some (core (obliquity1Actor b facts (Suc (Suc (Suc (nextActor s))))))
      else if i = Suc (Suc (Suc (nextActor s)))
        then Some (core (obliquity0Actor b (Suc (nextActor s))))
      else if i = Suc (Suc (nextActor s))
        then Some (core (labelActor b facts (Suc (nextActor s))))
      else if i = Suc (nextActor s) then Some (core (positionActor b facts (nextActor s)))
      else if i = nextActor s then Some (core (inclinationActor b facts))
      else coreOf s i)"
  by (simp add: prefixBuilt_def coreOf_addActor nextActor_addActor)

lemma prefixAs_new:
  "prefixAs (prefixBuilt b facts s) (suspendedAt b facts (nextActor s) c)"
  by (simp add: prefixAs_def suspendedAt_simps coreOf_prefixBuilt nextActor_prefixBuilt)

lemma nodesAs_completed:
  assumes "prefixAs s w"
  shows "nodesAs (completed w s) (sBody w) (sFacts w) (bodyOf w (nextActor s))"
proof -
  have old: "coreOf (completed w s) i = coreOf s i" if "i < nextActor s" for i
    using that by (simp add: coreOf_completed)
  have new: "coreOf (completed w s) (nextActor s) =
      Some (core (modelActor (sBody w) (sFacts w) (sObliquity1 w)
                   (assetUri (sBody w) (sFacts w))))"
    by (simp add: coreOf_completed)
  from assms have lt: "sInclination w < nextActor s" "sPosition w < nextActor s"
    "sLabel w < nextActor s" "sObliquity0 w < nextActor s" "sObliquity1 w < nextActor s"
    by (simp_all add: prefixAs_def)
  from assms have c: 
    "coreOf s (sInclination w) = Some (core (inclinationActor (sBody w) (sFacts w)))"
    "coreOf s (sPosition w) =
       Some (core (positionActor (sBody w) (sFacts w) (sInclination w)))"
    "coreOf s (sLabel w) = Some (core (labelActor (sBody w) (sFacts w) (sPosition w)))"
    "coreOf s (sObliquity0 w) = Some (core (obliquity0Actor (sBody w) (sPosition w)))"
    "coreOf s (sObliquity1 w) =
       Some (core (obliquity1Actor (sBody w) (sFacts w) (sObliquity0 w)))"
    by (simp_all add: prefixAs_def)
  show ?thesis
    unfolding nodesAs_def bodyOf_def
    by (simp add: old [OF lt(1)] old [OF lt(2)] old [OF lt(3)] old [OF lt(4)] old [OF lt(5)]
        new c completed_fields less_Suc_eq lt)
qed

lemma in_set_remove_nth: "x \<in> set (take k xs @ drop (Suc k) xs) \<Longrightarrow> x \<in> set xs"
  by (auto dest: in_set_takeD in_set_dropD)

lemma sceneInv_frame:
  assumes i: "sceneInv fails db s" and e: "extends s s'"
    and a: "set (awaiting s') \<subseteq> set (awaiting s)"
    and c: "celestialBodies s' = celestialBodies s"
  shows "sceneInv fails db s'"
proof (rule sceneInvI)
  fix w assume "w \<in> set (awaiting s')"
  with a have "w \<in> set (awaiting s)" by blast
  with i have "suspendedOK fails db s w" by (rule sceneInv_suspended)
  with e show "suspendedOK fails db s' w" by (rule suspendedOK_extends)
next
  fix b cb assume "celestialBodies s' b = Some cb"
  with c have "celestialBodies s b = Some cb" by simp
  with i have "registeredOK db s b cb" by (rule sceneInv_registered)
  with e show "registeredOK db s' b cb" by (rule registeredOK_extends)
qed

lemma sceneInv_completed:
  assumes i: "sceneInv fails db s" and w: "map_of db (sBody w) = Some (sFacts w)"
    and p: "prefixAs s w"
  shows "sceneInv fails db (completed w s)"
proof (rule sceneInvI)
  fix v assume "v \<in> set (awaiting (completed w s))"
  then have "v \<in> set (awaiting s)" by (simp add: completed_fields)
  with i have "suspendedOK fails db s v" by (rule sceneInv_suspended)
  with extends_completed show "suspendedOK fails db (completed w s) v"
    by (rule suspendedOK_extends)
next
  fix b cb assume r: "celestialBodies (completed w s) b = Some cb"
  show "registeredOK db (completed w s) b cb"
  proof (cases "b = sBody w")
    case True
    with r have "cb = bodyOf w (nextActor s)" by (simp add: completed_fields)
    with True w nodesAs_completed [OF p] show ?thesis by (auto simp: registeredOK_def)
  next
    case False
    with r have "celestialBodies s b = Some cb" by (simp add: completed_fields)
    with i have "registeredOK db s b cb" by (rule sceneInv_registered)
    with extends_completed show ?thesis by (rule registeredOK_extends)
  qed
qed

lemma sceneInv_createBody:
  assumes c: "createBody fails db b s = Inr s'" and i: "sceneInv fails db s"
  shows "sceneInv fails db s'"
  using c
proof (cases rule: createBody_cases)
  case (prefix_failed facts e s1)
  from i extends_createBody [OF c] show ?thesis
    by (rule sceneInv_frame)
      (simp_all add: prefix_failed(4) hostOnly_fields [OF prefix_failed(3)])
next
  case (model_failed facts e)
  from i extends_createBody [OF c] show ?thesis
    by (rule sceneInv_frame) (simp_all add: model_failed(5) prefixBuilt_fields)
next
  case (suspended facts)
  let ?t = "prefixBuilt b facts s"
  let ?w = "suspendedAt b facts (nextActor s) (assets s)"
  have t: "sceneInv fails db ?t"
    using i extends_hostOnly [OF hostOnly_prefixBuilt]
    by (rule sceneInv_frame) (simp_all add: prefixBuilt_fields)
  have e: "extends ?t s'" unfolding suspended(4) by (rule extends_suspend)
  show ?thesis
  proof (rule sceneInvI)
    fix w assume "w \<in> set (awaiting s')"
    then have "w = ?w \<or> w \<in> set (awaiting ?t)"
      by (auto simp: suspended(4) prefixBuilt_fields)
    then show "suspendedOK fails db s' w"
    proof
      assume "w = ?w"
      with suspended(1,2) prefixAs_extends [OF e prefixAs_new [of b facts s "assets s"]]
      show ?thesis by (simp add: suspendedOK_def suspendedAt_simps)
    next
      assume "w \<in> set (awaiting ?t)"
      with t have "suspendedOK fails db ?t w" by (rule sceneInv_suspended)
      with e show ?thesis by (rule suspendedOK_extends)
    qed
  next
    fix b' cb assume "celestialBodies s' b' = Some cb"
    then have "celestialBodies ?t b' = Some cb" by (simp add: suspended(4))
    with t have "registeredOK db ?t b' cb" by (rule sceneInv_registered)
    with e show "registeredOK db s' b' cb" by (rule registeredOK_extends)
  qed
next
  case (built facts)
  let ?t = "prefixBuilt b facts s"
  let ?w = "suspendedAt b facts (nextActor s) (assets s)"
  have t: "sceneInv fails db ?t"
    using i extends_hostOnly [OF hostOnly_prefixBuilt]
    by (rule sceneInv_frame) (simp_all add: prefixBuilt_fields)
  from t show ?thesis
    unfolding built(5)
    by (rule sceneInv_completed) (simp_all add: suspendedAt_simps built(1) prefixAs_new)
qed

lemma sceneInv_createBodies:
  "sceneInv fails db s \<Longrightarrow> sceneInv fails db (createBodies fails db keys s)"
proof (induction keys arbitrary: s)
  case Nil
  then show ?case by simp
next
  case (Cons k keys)
  show ?case
  proof (cases "createBody fails db k s")
    case (Inl e)
    with Cons show ?thesis by simp
  next
    case (Inr s')
    with Cons.prems have "sceneInv fails db s'" by (blast intro: sceneInv_createBody)
    with Cons.IH Inr show ?thesis by simp
  qed
qed

lemma sceneInv_resume:
  assumes i: "sceneInv fails db s" and w: "map_of db (sBody w) = Some (sFacts w)"
    and p: "prefixAs s w"
  shows "sceneInv fails db (resume fails w s)"
proof (cases rule: resume_cases [of fails w s])
  case (load_failed e)
  from i extends_resume [of s fails w] show ?thesis
    by (rule sceneInv_frame) (simp_all add: load_failed(2))
next
  case (model_failed e)
  from i extends_resume [of s fails w] show ?thesis
    by (rule sceneInv_frame) (simp_all add: model_failed(3) registerPrefab_fields)
next
  case built
  let ?t = "registerPrefab (sContainer w) (assetUri (sBody w) (sFacts w)) s"
  have e: "extends s ?t" by (rule extends_hostOnly [OF hostOnly_registerPrefab])
  have "sceneInv fails db ?t"
    using i e by (rule sceneInv_frame) (simp_all add: registerPrefab_fields)
  then show ?thesis
    unfolding built(3) using w prefixAs_extends [OF e p] by (rule sceneInv_completed)
qed

lemma step_registry:
  "celestialBodies (step fails e s) = celestialBodies s \<and> awaiting (step fails e s) = awaiting s"
  if "\<And>k. e \<noteq> Loaded k"
proof (cases e)
  case (Loaded k)
  with that show ?thesis by blast
next
  case (Tick h)
  have l: "celestialBodies (labelTick c s) = celestialBodies s \<and>
      awaiting (labelTick c s) = awaiting s" for c
    by (cases c) (simp_all add: labelTick_def updateActor_def Let_def)
  have g: "celestialBodies (gearTick c s) = celestialBodies s \<and>
      awaiting (gearTick c s) = awaiting s" for c
    by (cases c) (simp_all add: gearTick_def updateActor_def Let_def)
  show ?thesis
  proof (cases "find (\<lambda>t. fst t = h) (intervals s)")
    case None
    with Tick show ?thesis by simp
  next
    case (Some t)
    then show ?thesis using Tick
      by (cases "snd (snd t)") (simp_all add: l g)
  qed
next
  case (Timeout h)
  then show ?thesis by (simp add: step_defs split: option.splits)
next
  case (HoverEnter b)
  then show ?thesis by (simp add: step_defs split: option.splits)
next
  case (HoverExit b)
  then show ?thesis by (simp add: step_defs split: option.splits)
next
  case (Click b)
  then show ?thesis by (simp add: step_defs split: option.splits)
qed

lemma sceneInv_step:
  assumes i: "sceneInv fails db s"
  shows "sceneInv fails db (step fails e s)"
proof (cases "\<exists>k. e = Loaded k")
  case False
  then have "\<And>k. e \<noteq> Loaded k" by blast
  from step_registry [OF this, of fails s] have
    "set (awaiting (step fails e s)) \<subseteq> set (awaiting s)"
    "celestialBodies (step fails e s) = celestialBodies s" by simp_all
  with i extends_step [of s fails e] show ?thesis by (rule sceneInv_frame)
next
  case True
  then obtain k where k: "e = Loaded k" ..
  show ?thesis
  proof (cases "k < length (awaiting s)")
    case False
    with k i show ?thesis by simp
  next
    case True
    let ?w = "awaiting s ! k"
    let ?t = "s\<lparr>awaiting := take k (awaiting s) @ drop (Suc k) (awaiting s)\<rparr>"
    from True have "?w \<in> set (awaiting s)" by simp
    with i have "suspendedOK fails db s ?w" by (rule sceneInv_suspended)
    then have w: "map_of db (sBody ?w) = Some (sFacts ?w)" and p: "prefixAs s ?w"
      by (simp_all add: suspendedOK_def)
    have e: "extends s ?t" by (rule extends_awaiting)
    have "sceneInv fails db ?t"
      using i e by (rule sceneInv_frame) (auto dest: in_set_takeD in_set_dropD)
    then have "sceneInv fails db (resume fails ?w ?t)"
      using w prefixAs_extends [OF e p] by (rule sceneInv_resume)
    with k True show ?thesis by simp
  qed
qed

lemma sceneInv_run: "sceneInv fails db s \<Longrightarrow> sceneInv fails db (run fails evs s)"
  by (induction evs arbitrary: s) (simp_all add: sceneInv_step)

lemma sceneInv_initial: "sceneInv fails db initial"
  by (simp add: sceneInv_def initial_def)

lemma sceneInv_reachable:
  "sceneInv fails db (run fails evs (createSolarSystem fails db initial))"
  unfolding createSolarSystem_def
  by (intro sceneInv_run sceneInv_createBodies sceneInv_initial)

section \<open>An example table\<close>

text \<open>The vertical offset of a body's label: \<^verbatim>\<open>label.transform.local.position.y\<close>.\<close>

definition labelOffset :: "CelestialBody \<Rightarrow> SolarSystem \<Rightarrow> real option" where
  "labelOffset cb s = map_option (\<lambda>a. vy (localPosition a)) (actors s (label cb))"

definition exampleRecord :: "string \<Rightarrow> real \<Rightarrow> DatabaseRecord" where
  "exampleRecord n d =
     \<lparr> name = n, fileFormat = ''glb'', parent = [], diameter = d,
       modelpositionxAxis = 0, modelpositionyAxis = 0, modelpositionzAxis = 0,
       modelrotationxAxis = 0, modelrotationyAxis = 0, modelrotationzAxis = 0,
       labelpositionxAxis = 0, labelpositionyAxis = 0.4, labelpositionzAxis = 0,
       appearance = True, distance = 0, day = 0, year = 0, inclinationDeg = 0,
       obliquityDeg = 0, retrograde = False \<rparr>"

definition exampleDatabase :: Database where
  "exampleDatabase =
     [(''box_model_cloud'', exampleRecord ''Cloud'' 1000),
      (''only_gear'', exampleRecord ''Gear'' 8),
      (''popup_model'', exampleRecord [] 0)]"

definition noFailure :: "string \<Rightarrow> string option" where
  "noFailure = (\<lambda>_. None)"

text \<open>The example table built, its three loads ended in the order of their start.\<close>

definition exampleState :: SolarSystem where
  "exampleState =
     run noFailure [Loaded 0, Loaded 0, Loaded 0]
       (createSolarSystem noFailure exampleDatabase initial)"

lemma exampleRecord_fields:
  "name (exampleRecord n d) = n" "fileFormat (exampleRecord n d) = ''glb''"
  "diameter (exampleRecord n d) = d" "appearance (exampleRecord n d) = True"
  "labelpositionxAxis (exampleRecord n d) = 0" "labelpositionyAxis (exampleRecord n d) = 0.4"
  "labelpositionzAxis (exampleRecord n d) = 0"
  by (simp_all add: exampleRecord_def)


lemma example_uris:
  "assetUri ''box_model_cloud'' (exampleRecord n d) = ''assets/box_model_cloud.glb''"
  "assetUri ''only_gear'' (exampleRecord n d) = ''assets/only_gear.glb''"
  "assetUri ''popup_model'' (exampleRecord n d) = ''assets/popup_model.glb''"
  by (simp_all add: assetUri_def exampleRecord_fields)

lemma createBody_noFailure:
  "map_of db b = Some facts \<Longrightarrow>
     createBody noFailure db b s =
       Inr (if assetUri b facts \<in> set (containers s (assets s))
            then completed (suspendedAt b facts (nextActor s) (assets s)) (prefixBuilt b facts s)
            else (prefixBuilt b facts s)
                   \<lparr>loads := loads s @ [assetUri b facts],
                    awaiting := awaiting s @ [suspendedAt b facts (nextActor s) (assets s)]\<rparr>)"
  using createBody_rest_eq [of noFailure "suspendedAt b facts (nextActor s) (assets s)"
      "prefixBuilt b facts s"]
  by (simp add: createBody_def createBody_try_prefixOK prefixOK_def noFailure_def caught_def
      suspendedAt_simps)

lemma resume_noFailure:
  "resume noFailure w s =
     completed w (registerPrefab (sContainer w) (assetUri (sBody w) (sFacts w)) s)"
  by (simp add: resume_def noFailure_def caught_def createBody_rest_eq)

lemma containers_registerPrefab:
  "containers (registerPrefab c u s) = (containers s)(c := containers s c @ [u])"
  "nextActor (registerPrefab c u s) = nextActor s"
  by (simp_all add: registerPrefab_def)

text \<open>The table started: three calls suspended at their loads.\<close>

definition startedState :: SolarSystem where
  "startedState = createSolarSystem noFailure exampleDatabase initial"

lemma startedState_fields:
  "awaiting startedState =
     [suspendedAt ''box_model_cloud'' (exampleRecord ''Cloud'' 1000) 0 0,
      suspendedAt ''only_gear'' (exampleRecord ''Gear'' 8) 5 0,
      suspendedAt ''popup_model'' (exampleRecord [] 0) 10 0]"
  "nextActor startedState = 15"
  "celestialBodies startedState = Map.empty"
  "intervals startedState = []" "nextTimer startedState = 0" "handlers startedState = []"
  "animationLoopIterval startedState = None" "childBoxTimeout startedState = None"
  "timeouts startedState = []" "animations startedState = []" "labelLoopInc startedState = 0"
  "assets startedState = 0" "nextContainer startedState = 1" "logged startedState = []"
  "loads startedState =
     [''assets/box_model_cloud.glb'', ''assets/only_gear.glb'', ''assets/popup_model.glb'']"
  by (simp_all add: startedState_def createSolarSystem_def Object_keys_def exampleDatabase_def
      createBody_noFailure example_uris prefixBuilt_fields nextActor_prefixBuilt
      containers_prefixBuilt initial_def)

lemma exampleState_started: "exampleState = run noFailure [Loaded 0, Loaded 0, Loaded 0] startedState"
  by (simp add: exampleState_def startedState_def)

definition boxBody :: CelestialBody where
  "boxBody = \<lparr>inclination = 0, position = 1, obliquity0 = 3, obliquity1 = 4, model = 15,
     label = 2\<rparr>"

definition gearBody :: CelestialBody where
  "gearBody = \<lparr>inclination = 5, position = 6, obliquity0 = 8, obliquity1 = 9, model = 16,
     label = 7\<rparr>"

definition popupBody :: CelestialBody where
  "popupBody = \<lparr>inclination = 10, position = 11, obliquity0 = 13, obliquity1 = 14, model = 17,
     label = 12\<rparr>"

lemmas example_simps = exampleState_started startedState_fields resume_noFailure
  completed_fields registerPrefab_fields containers_registerPrefab suspendedAt_simps
  exampleRecord_fields bodyOf_def boxBody_def gearBody_def popupBody_def

lemma exampleState_fields:
  "intervals exampleState =
     [(0, ''box_model_cloud'', LabelBob (Some boxBody)),
      (1, ''only_gear'', LabelBob (Some gearBody))]"
  "handlers exampleState = [''box_model_cloud'', ''only_gear'']"
  "nextTimer exampleState = 2"
  "animationLoopIterval exampleState = Some 1"
  "childBoxTimeout exampleState = None"
  "timeouts exampleState = []"
  "animations exampleState = []"
  "labelLoopInc exampleState = 0"
  "awaiting exampleState = []"
  "celestialBodies exampleState ''box_model_cloud'' = Some boxBody"
  "celestialBodies exampleState ''only_gear'' = Some gearBody"
  "celestialBodies exampleState ''popup_model'' = Some popupBody"
  by (simp_all add: example_simps)

lemma actors_prefixBuilt:
  "actors (prefixBuilt b facts s) i =
     (if i = Suc (Suc (Suc (Suc (nextActor s))))
        then Some (obliquity1Actor b facts (Suc (Suc (Suc (nextActor s)))))
      else if i = Suc (Suc (Suc (nextActor s))) then Some (obliquity0Actor b (Suc (nextActor s)))
      else if i = Suc (Suc (nextActor s)) then Some (labelActor b facts (Suc (nextActor s)))
      else if i = Suc (nextActor s) then Some (positionActor b facts (nextActor s))
      else if i = nextActor s then Some (inclinationActor b facts)
      else actors s i)"
  by (simp add: prefixBuilt_def actors_addActor nextActor_addActor)

lemma labelOffset_prefixBuilt_new:
  "label cb = Suc (Suc (nextActor s)) \<Longrightarrow>
     labelOffset cb (prefixBuilt b facts s) = Some (labelpositionyAxis facts)"
  by (simp add: labelOffset_def actors_prefixBuilt labelActor_def)

lemma labelOffset_prefixBuilt_old:
  "label cb < nextActor s \<Longrightarrow> labelOffset cb (prefixBuilt b facts s) = labelOffset cb s"
  by (simp add: labelOffset_def actors_prefixBuilt)

lemma labelOffset_suspend:
  "labelOffset cb (s\<lparr>loads := l, awaiting := a\<rparr>) = labelOffset cb s"
  "labelOffset cb (s\<lparr>awaiting := a\<rparr>) = labelOffset cb s"
  "labelOffset cb (s\<lparr>loads := l\<rparr>) = labelOffset cb s"
  "labelOffset cb (registerPrefab c u s) = labelOffset cb s"
  by (simp_all add: labelOffset_def registerPrefab_def)

lemma labelOffset_completed:
  "label cb < nextActor s \<Longrightarrow> labelOffset cb (completed w s) = labelOffset cb s"
  by (simp add: labelOffset_def completed_def finishBody_def Let_def updateActor_def
      animationPlayPause_def actors_addActor bodyOf_def option.map_comp comp_def)

lemma labelOffset_startedState:
  "labelOffset boxBody startedState = Some 0.4"
  "labelOffset gearBody startedState = Some 0.4"
  by (simp_all add: startedState_def createSolarSystem_def Object_keys_def exampleDatabase_def
      createBody_noFailure example_uris prefixBuilt_fields nextActor_prefixBuilt
      containers_prefixBuilt labelOffset_suspend labelOffset_prefixBuilt_new
      labelOffset_prefixBuilt_old boxBody_def gearBody_def exampleRecord_fields initial_def)

lemma labelOffset_exampleState:
  "labelOffset boxBody exampleState = Some 0.4"
  "labelOffset gearBody exampleState = Some 0.4"
proof -
  have b: "label boxBody < 15" "label gearBody < 15" by (simp_all add: boxBody_def gearBody_def)
  have "labelOffset cb exampleState = labelOffset cb startedState" if "label cb < 15" for cb
    using that
    by (simp add: exampleState_started startedState_fields resume_noFailure completed_fields
        containers_registerPrefab labelOffset_completed labelOffset_suspend)
  with b show "labelOffset boxBody exampleState = Some 0.4"
    "labelOffset gearBody exampleState = Some 0.4"
    by (simp_all add: labelOffset_startedState)
qed




section \<open>The label-bob loop\<close>

lemma createBody_labelLoopInc:
  assumes "createBody fails db b s = Inr s'"
  shows "labelLoopInc s' = labelLoopInc s"
  using assms
  by (cases rule: createBody_cases)
    (simp_all add: completed_fields prefixBuilt_fields hostOnly_fields)

lemma createBodies_labelLoopInc:
  "labelLoopInc (createBodies fails db keys s) = labelLoopInc s"
  by (induction keys arbitrary: s) (auto split: sum.splits dest: createBody_labelLoopInc)

lemma resume_labelLoopInc: "labelLoopInc (resume fails w s) = labelLoopInc s"
  by (cases rule: resume_cases [of fails w s])
    (simp_all add: completed_fields registerPrefab_fields)

lemma labelTick_range:
  "0 \<le> labelLoopInc s \<and> labelLoopInc s \<le> 10 \<Longrightarrow>
     0 \<le> labelLoopInc (labelTick c s) \<and> labelLoopInc (labelTick c s) \<le> 10"
  by (auto simp: labelTick_def updateActor_def Let_def split: option.splits)

lemma gearTick_labelLoopInc: "labelLoopInc (gearTick c s) = labelLoopInc s"
  by (auto simp: gearTick_def updateActor_def Let_def split: option.splits)

lemma step_labelLoopInc_range:
  assumes "0 \<le> labelLoopInc s \<and> labelLoopInc s \<le> 10"
  shows "0 \<le> labelLoopInc (step fails e s) \<and> labelLoopInc (step fails e s) \<le> 10"
proof (cases e)
  case (Loaded k)
  with assms show ?thesis by (simp add: resume_labelLoopInc)
next
  case (Tick h)
  show ?thesis
  proof (cases "find (\<lambda>t. fst t = h) (intervals s)")
    case None
    with Tick assms show ?thesis by simp
  next
    case (Some t)
    then show ?thesis using Tick assms
      by (cases "snd (snd t)") (simp_all add: labelTick_range gearTick_labelLoopInc)
  qed
next
  case (Timeout h)
  with assms show ?thesis by (simp add: step_defs split: option.splits)
next
  case (HoverEnter b)
  with assms show ?thesis by (simp add: step_defs split: option.splits)
next
  case (HoverExit b)
  with assms show ?thesis by (simp add: step_defs split: option.splits)
next
  case (Click b)
  with assms show ?thesis by (simp add: step_defs split: option.splits)
qed

lemma run_labelLoopInc_range:
  "0 \<le> labelLoopInc s \<and> labelLoopInc s \<le> 10 \<Longrightarrow>
     0 \<le> labelLoopInc (run fails evs s) \<and> labelLoopInc (run fails evs s) \<le> 10"
proof (induction evs arbitrary: s)
  case Nil
  then show ?case by simp
next
  case (Cons e evs)
  from Cons.prems have
    "0 \<le> labelLoopInc (step fails e s) \<and> labelLoopInc (step fails e s) \<le> 10"
    by (rule step_labelLoopInc_range)
  then show ?case using Cons.IH by simp
qed

text \<open>
  C1. A tick of a running label-bob loop is exactly this transition: with the counter
  below 5 the label's vertical offset grows by 0.01 and the counter by 1, and a counter
  that reaches 5 jumps to 10; otherwise the offset shrinks by 0.01 and the counter by 1,
  and a counter that reaches 5 is reset to 0. In every state the application reaches,
  whatever fails at start-up and whatever events follow, the counter is in [0, 10].
\<close>

theorem label_bob_tick:
  "labelTick (Some cb) s =
     (updateActor (label cb)
        (setLabelY (\<lambda>y. if labelLoopInc s < 5 then y + 0.01 else y - 0.01)) s)
       \<lparr>labelLoopInc :=
          (if labelLoopInc s < 5
           then (if labelLoopInc s + 1 = 5 then 10 else labelLoopInc s + 1)
           else (if labelLoopInc s - 1 = 5 then 0 else labelLoopInc s - 1))\<rparr>
   \<and> labelOffset cb (labelTick (Some cb) s) =
       map_option (\<lambda>y. if labelLoopInc s < 5 then y + 0.01 else y - 0.01) (labelOffset cb s)
   \<and> (find (\<lambda>t. fst t = h) (intervals s) = Some (h, b, LabelBob (Some cb)) \<longrightarrow>
        step fails (Tick h) s = labelTick (Some cb) s)
   \<and> 0 \<le> labelLoopInc (run fails evs (createSolarSystem fails db initial))
   \<and> labelLoopInc (run fails evs (createSolarSystem fails db initial)) \<le> 10"
proof -
  have a: "labelTick (Some cb) s =
     (updateActor (label cb)
        (setLabelY (\<lambda>y. if labelLoopInc s < 5 then y + 0.01 else y - 0.01)) s)
       \<lparr>labelLoopInc :=
          (if labelLoopInc s < 5
           then (if labelLoopInc s + 1 = 5 then 10 else labelLoopInc s + 1)
           else (if labelLoopInc s - 1 = 5 then 0 else labelLoopInc s - 1))\<rparr>"
    by (simp add: labelTick_def updateActor_def Let_def)
  have b: "labelOffset cb (labelTick (Some cb) s) =
       map_option (\<lambda>y. if labelLoopInc s < 5 then y + 0.01 else y - 0.01) (labelOffset cb s)"
    by (simp add: labelTick_def labelOffset_def updateActor_def setLabelY_def Let_def
        option.map_comp comp_def)
  have c: "find (\<lambda>t. fst t = h) (intervals s) = Some (h, b, LabelBob (Some cb)) \<longrightarrow>
        step fails (Tick h) s = labelTick (Some cb) s"
    by simp
  have "0 \<le> labelLoopInc (createSolarSystem fails db initial) \<and>
        labelLoopInc (createSolarSystem fails db initial) \<le> 10"
    by (simp add: createSolarSystem_def createBodies_labelLoopInc initial_def)
  then have d: "0 \<le> labelLoopInc (run fails evs (createSolarSystem fails db initial)) \<and>
        labelLoopInc (run fails evs (createSolarSystem fails db initial)) \<le> 10"
    by (rule run_labelLoopInc_range)
  from a b c d show ?thesis by blast
qed

theorem label_bob_tick_witness:
  "find (\<lambda>t. fst t = 0) (intervals exampleState) =
     Some (0, ''box_model_cloud'', LabelBob (Some boxBody)) \<and>
   step noFailure (Tick 0) exampleState = labelTick (Some boxBody) exampleState \<and>
   labelOffset boxBody (labelTick (Some boxBody) exampleState) = Some 0.41 \<and>
   0 \<le> labelLoopInc (run noFailure [Tick 0, Tick 1] exampleState) \<and>
   labelLoopInc (run noFailure [Tick 0, Tick 1] exampleState) \<le> 10"
proof -
  have r: "run noFailure [Tick 0, Tick 1] exampleState =
      run noFailure [Loaded 0, Loaded 0, Loaded 0, Tick 0, Tick 1]
        (createSolarSystem noFailure exampleDatabase initial)"
    by (simp add: exampleState_def)
  note t = label_bob_tick [of boxBody exampleState 0 "''box_model_cloud''" noFailure
      "[Loaded 0, Loaded 0, Loaded 0, Tick 0, Tick 1]" exampleDatabase, folded r]
  have f: "find (\<lambda>t. fst t = 0) (intervals exampleState) =
     Some (0, ''box_model_cloud'', LabelBob (Some boxBody))"
    by (simp add: exampleState_fields)
  from t f have a: "step noFailure (Tick 0) exampleState = labelTick (Some boxBody) exampleState"
    by blast
  from t have "labelOffset boxBody (labelTick (Some boxBody) exampleState) =
      map_option (\<lambda>y. if labelLoopInc exampleState < 5 then y + 0.01 else y - 0.01)
        (labelOffset boxBody exampleState)"
    by blast
  then have b: "labelOffset boxBody (labelTick (Some boxBody) exampleState) = Some 0.41"
    by (simp add: exampleState_fields labelOffset_exampleState)
  from t have c: "0 \<le> labelLoopInc (run noFailure [Tick 0, Tick 1] exampleState) \<and>
     labelLoopInc (run noFailure [Tick 0, Tick 1] exampleState) \<le> 10"
    by blast
  from f a b c show ?thesis by blast
qed

section \<open>The parent chain\<close>

definition parentOf :: "SolarSystem \<Rightarrow> nat \<Rightarrow> nat option option" where
  "parentOf s i = map_option parentId (actors s i)"

definition nodesOf :: "CelestialBody \<Rightarrow> nat set" where
  "nodesOf cb = {inclination cb, position cb, label cb, obliquity0 cb, obliquity1 cb, model cb}"

definition links :: "SolarSystem \<Rightarrow> CelestialBody \<Rightarrow> (nat \<times> nat) set" where
  "links s cb = {(c, p). c \<in> nodesOf cb \<and> p \<in> nodesOf cb \<and> parentOf s c = Some (Some p)}"

definition strictChain :: "SolarSystem \<Rightarrow> CelestialBody \<Rightarrow> bool" where
  "strictChain s cb \<longleftrightarrow>
     parentOf s (inclination cb) = Some None \<and>
     parentOf s (position cb) = Some (Some (inclination cb)) \<and>
     parentOf s (label cb) = Some (Some (position cb)) \<and>
     parentOf s (obliquity0 cb) = Some (Some (position cb)) \<and>
     parentOf s (obliquity1 cb) = Some (Some (obliquity0 cb)) \<and>
     parentOf s (model cb) = Some (Some (obliquity1 cb)) \<and>
     distinct [inclination cb, position cb, label cb, obliquity0 cb, obliquity1 cb, model cb]"

lemma parentId_simps:
  "parentId (inclinationActor b facts) = None"
  "parentId (positionActor b facts i) = Some i"
  "parentId (labelActor b facts p) = Some p"
  "parentId (obliquity0Actor b p) = Some p"
  "parentId (obliquity1Actor b facts o0) = Some o0"
  "parentId (modelActor b facts o1 pf) = Some o1"
  by (simp_all add: inclinationActor_def positionActor_def labelActor_def obliquity0Actor_def
      obliquity1Actor_def modelActor_def newActor_def)

lemma parentOf_core: "coreOf s i = Some (core a) \<Longrightarrow> parentOf s i = Some (parentId a)"
  by (auto simp: coreOf_def parentOf_def core_def)

lemma name_core: "coreOf s i = Some (core a) \<Longrightarrow> map_option actorName (actors s i) = Some (actorName a)"
  by (auto simp: coreOf_def core_def)

lemma strictChain_nodesAs:
  assumes "nodesAs s b facts cb"
  shows "strictChain s cb"
proof -
  from assms have c:
    "coreOf s (inclination cb) = Some (core (inclinationActor b facts))"
    "coreOf s (position cb) = Some (core (positionActor b facts (inclination cb)))"
    "coreOf s (label cb) = Some (core (labelActor b facts (position cb)))"
    "coreOf s (obliquity0 cb) = Some (core (obliquity0Actor b (position cb)))"
    "coreOf s (obliquity1 cb) = Some (core (obliquity1Actor b facts (obliquity0 cb)))"
    "coreOf s (model cb) = Some (core (modelActor b facts (obliquity1 cb) (assetUri b facts)))"
    by (simp_all add: nodesAs_def)
  note p = c [THEN parentOf_core, unfolded parentId_simps]
  note n = c [THEN name_core, unfolded actorName_simps]
  have d: "i \<noteq> j" if "map_option actorName (actors s i) = Some x"
    "map_option actorName (actors s j) = Some y" "x \<noteq> y" for i j x y
    using that by auto
  have "distinct [inclination cb, position cb, label cb, obliquity0 cb, obliquity1 cb, model cb]"
    using d [OF n(1) n(2)] d [OF n(1) n(3)] d [OF n(1) n(4)] d [OF n(1) n(5)] d [OF n(1) n(6)]
      d [OF n(2) n(3)] d [OF n(2) n(4)] d [OF n(2) n(5)] d [OF n(2) n(6)]
      d [OF n(3) n(4)] d [OF n(3) n(5)] d [OF n(3) n(6)]
      d [OF n(4) n(5)] d [OF n(4) n(6)] d [OF n(5) n(6)]
    by simp
  with p show ?thesis by (simp add: strictChain_def)
qed

lemma links_strictChain:
  assumes "strictChain s cb"
  shows "links s cb =
     {(position cb, inclination cb), (label cb, position cb), (obliquity0 cb, position cb),
      (obliquity1 cb, obliquity0 cb), (model cb, obliquity1 cb)}"
proof -
  from assms have p:
    "parentOf s (inclination cb) = Some None"
    "parentOf s (position cb) = Some (Some (inclination cb))"
    "parentOf s (label cb) = Some (Some (position cb))"
    "parentOf s (obliquity0 cb) = Some (Some (position cb))"
    "parentOf s (obliquity1 cb) = Some (Some (obliquity0 cb))"
    "parentOf s (model cb) = Some (Some (obliquity1 cb))"
    by (simp_all add: strictChain_def)
  have "(c, q) \<in> links s cb \<longleftrightarrow>
      (c, q) \<in> {(position cb, inclination cb), (label cb, position cb),
        (obliquity0 cb, position cb), (obliquity1 cb, obliquity0 cb), (model cb, obliquity1 cb)}"
    for c q
  proof
    assume "(c, q) \<in> links s cb"
    then have c: "c \<in> nodesOf cb" and q: "parentOf s c = Some (Some q)"
      by (simp_all add: links_def)
    from c consider "c = inclination cb" | "c = position cb" | "c = label cb"
      | "c = obliquity0 cb" | "c = obliquity1 cb" | "c = model cb"
      by (auto simp: nodesOf_def)
    then show "(c, q) \<in> {(position cb, inclination cb), (label cb, position cb),
        (obliquity0 cb, position cb), (obliquity1 cb, obliquity0 cb), (model cb, obliquity1 cb)}"
      using q p by cases simp_all
  next
    assume "(c, q) \<in> {(position cb, inclination cb), (label cb, position cb),
        (obliquity0 cb, position cb), (obliquity1 cb, obliquity0 cb), (model cb, obliquity1 cb)}"
    then consider "c = position cb" "q = inclination cb" | "c = label cb" "q = position cb"
      | "c = obliquity0 cb" "q = position cb" | "c = obliquity1 cb" "q = obliquity0 cb"
      | "c = model cb" "q = obliquity1 cb"
      by auto
    then show "(c, q) \<in> links s cb"
      using p by cases (simp_all add: links_def nodesOf_def)
  qed
  then show ?thesis by (intro set_eqI) (simp only: split_paired_all)
qed

text \<open>
  C6. In every state the application reaches, the six nodes registered for a body form
  the chain: inclination has no parent, position hangs under inclination, label and
  obliquity0 under position, obliquity1 under obliquity0, model under obliquity1; the
  six nodes are distinct, and these five are the only parent links among them.
\<close>

theorem registered_nodes_chain:
  assumes "celestialBodies (run fails evs (createSolarSystem fails db initial)) b = Some cb"
  shows "strictChain (run fails evs (createSolarSystem fails db initial)) cb \<and>
         links (run fails evs (createSolarSystem fails db initial)) cb =
           {(position cb, inclination cb), (label cb, position cb),
            (obliquity0 cb, position cb), (obliquity1 cb, obliquity0 cb),
            (model cb, obliquity1 cb)}"
proof -
  let ?s = "run fails evs (createSolarSystem fails db initial)"
  have "sceneInv fails db ?s" by (rule sceneInv_reachable)
  then have "registeredOK db ?s b cb" using assms by (rule sceneInv_registered)
  then obtain facts where "nodesAs ?s b facts cb" by (auto simp: registeredOK_def)
  then have "strictChain ?s cb" by (rule strictChain_nodesAs)
  then show ?thesis by (simp add: links_strictChain)
qed

theorem registered_nodes_chain_witness:
  "celestialBodies exampleState ''only_gear'' = Some gearBody \<and>
   strictChain exampleState gearBody \<and>
   links exampleState gearBody = {(6, 5), (7, 6), (8, 6), (9, 8), (16, 9)}"
proof -
  have r: "celestialBodies (run noFailure [Loaded 0, Loaded 0, Loaded 0]
      (createSolarSystem noFailure exampleDatabase initial)) ''only_gear'' = Some gearBody"
    unfolding exampleState_def [symmetric] by (simp add: exampleState_fields)
  from registered_nodes_chain [OF r] r show ?thesis
    unfolding exampleState_def [symmetric] by (simp add: gearBody_def)
qed

section \<open>The error boundary\<close>






















lemma resume_succeeds:
  "fails (assetUri (sBody w) (sFacts w)) = None \<Longrightarrow> fails (sBody w @ ''-body'') = None \<Longrightarrow>
     resume fails w s =
       completed w (registerPrefab (sContainer w) (assetUri (sBody w) (sFacts w)) s)"
  by (simp add: resume_def caught_def createBody_rest_eq)






section \<open>The gear loop\<close>

fun isLabelBob :: "callback \<Rightarrow> bool" where
  "isLabelBob (LabelBob c) = True"
| "isLabelBob (GearOscillation c) = False"

text \<open>No gear-oscillation timer runs and the gear counter is still 0.\<close>

definition noGearLoop :: "SolarSystem \<Rightarrow> bool" where
  "noGearLoop s \<longleftrightarrow> list_all (\<lambda>t. isLabelBob (snd (snd t))) (intervals s) \<and> gearLoopInc s = 0"

lemma noGearLoop_completed: "noGearLoop s \<Longrightarrow> noGearLoop (completed w s)"
  by (simp add: noGearLoop_def completed_fields)

lemma noGearLoop_hostOnly: "hostOnly s s' \<Longrightarrow> noGearLoop s \<Longrightarrow> noGearLoop s'"
  by (simp add: noGearLoop_def hostOnly_fields)

lemma noGearLoop_update:
  "noGearLoop s \<Longrightarrow> noGearLoop (s\<lparr>logged := l\<rparr>)"
  "noGearLoop s \<Longrightarrow> noGearLoop (s\<lparr>awaiting := a\<rparr>)"
  "noGearLoop s \<Longrightarrow> noGearLoop (s\<lparr>loads := u, awaiting := a\<rparr>)"
  by (simp_all add: noGearLoop_def)

lemma noGearLoop_createBody:
  assumes "createBody fails db b s = Inr s'" and "noGearLoop s"
  shows "noGearLoop s'"
  using assms(1)
proof (cases rule: createBody_cases)
  case (prefix_failed facts e s1)
  with assms(2) show ?thesis by (simp add: noGearLoop_def hostOnly_fields)
next
  case (suspended facts)
  with assms(2) show ?thesis by (simp add: noGearLoop_def prefixBuilt_fields)
next
  case (model_failed facts e)
  with assms(2) show ?thesis by (simp add: noGearLoop_def prefixBuilt_fields)
next
  case (built facts)
  with assms(2) show ?thesis by (simp add: noGearLoop_def completed_fields prefixBuilt_fields)
qed

lemma noGearLoop_createBodies:
  "noGearLoop s \<Longrightarrow> noGearLoop (createBodies fails db keys s)"
proof (induction keys arbitrary: s)
  case Nil
  then show ?case by simp
next
  case (Cons k keys)
  show ?case
  proof (cases "createBody fails db k s")
    case (Inl e)
    with Cons show ?thesis by simp
  next
    case (Inr s')
    with Cons.prems have "noGearLoop s'" by (blast intro: noGearLoop_createBody)
    with Cons.IH Inr show ?thesis by simp
  qed
qed

lemma noGearLoop_resume:
  assumes "noGearLoop s"
  shows "noGearLoop (resume fails w s)"
proof (cases rule: resume_cases [of fails w s])
  case (load_failed e)
  with assms show ?thesis by (simp add: noGearLoop_def)
next
  case (model_failed e)
  with assms show ?thesis by (simp add: noGearLoop_def registerPrefab_fields)
next
  case built
  with assms show ?thesis by (simp add: noGearLoop_def completed_fields registerPrefab_fields)
qed

lemma labelTick_gear:
  "intervals (labelTick c s) = intervals s \<and> gearLoopInc (labelTick c s) = gearLoopInc s"
  by (cases c) (simp_all add: labelTick_def Let_def updateActor_def)

lemma noGearLoop_step:
  assumes "noGearLoop s"
  shows "noGearLoop (step fails e s)"
proof (cases e)
  case (Loaded k)
  from assms have "noGearLoop (s\<lparr>awaiting := take k (awaiting s) @ drop (Suc k) (awaiting s)\<rparr>)"
    by (rule noGearLoop_update)
  then have "noGearLoop (resume fails (awaiting s ! k)
      (s\<lparr>awaiting := take k (awaiting s) @ drop (Suc k) (awaiting s)\<rparr>))"
    by (rule noGearLoop_resume)
  with Loaded assms show ?thesis by simp
next
  case (Tick h)
  show ?thesis
  proof (cases "find (\<lambda>t. fst t = h) (intervals s)")
    case None
    with Tick assms show ?thesis by simp
  next
    case (Some t)
    then have "t \<in> set (intervals s)" by (auto simp: find_Some_iff in_set_conv_nth)
    with assms have "isLabelBob (snd (snd t))" by (simp add: noGearLoop_def list_all_iff)
    then obtain c where "snd (snd t) = LabelBob c" by (cases "snd (snd t)") simp_all
    with Some Tick assms show ?thesis by (simp add: noGearLoop_def labelTick_gear)
  qed
next
  case (Timeout h)
  with assms show ?thesis
    by (auto simp: noGearLoop_def list_all_iff step_defs split: option.splits)
next
  case (HoverEnter b)
  with assms show ?thesis
    by (auto simp: noGearLoop_def list_all_iff step_defs split: option.splits)
next
  case (HoverExit b)
  with assms show ?thesis
    by (auto simp: noGearLoop_def list_all_iff step_defs split: option.splits)
next
  case (Click b)
  with assms show ?thesis
    by (auto simp: noGearLoop_def list_all_iff step_defs split: option.splits)
qed

lemma noGearLoop_run: "noGearLoop s \<Longrightarrow> noGearLoop (run fails evs s)"
  by (induction evs arbitrary: s) (simp_all add: noGearLoop_step)

lemma noGearLoop_reachable: "noGearLoop (run fails evs (createSolarSystem fails db initial))"
  unfolding createSolarSystem_def
  by (rule noGearLoop_run, rule noGearLoop_createBodies) (simp add: noGearLoop_def initial_def)

lemma gearTick_range:
  "0 \<le> gearLoopInc s \<and> gearLoopInc s \<le> 20 \<Longrightarrow>
     0 \<le> gearLoopInc (gearTick c s) \<and> gearLoopInc (gearTick c s) \<le> 20"
  by (auto simp: gearTick_def updateActor_def Let_def split: option.splits)

lemma resume_boundAnimations:
  assumes "fails (assetUri (sBody w) (sFacts w)) = None" "fails (sBody w @ ''-body'') = None"
    "sBody w = ''only_gear''"
  shows "boundAnimations (resume fails w s) = boundAnimations s @ [nextActor s]"
  by (simp add: resume_succeeds [OF assms(1,2)] completed_fields assms(3)
      registerPrefab_fields containers_registerPrefab)

text \<open>
  C8, as the claim states it, fails: in no state that the application reaches, whatever
  the table, the failures and the events, does a gear-oscillation timer run.
\<close>

theorem gear_loop_never_started:
  "\<not> (\<exists>fails db evs h b c.
        (h, b, GearOscillation c)
          \<in> set (intervals (run fails evs (createSolarSystem fails db initial))))"
proof
  assume "\<exists>fails db evs h b c.
        (h, b, GearOscillation c)
          \<in> set (intervals (run fails evs (createSolarSystem fails db initial)))"
  then obtain fails db evs h b c where
    "(h, b, GearOscillation c)
       \<in> set (intervals (run fails evs (createSolarSystem fails db initial)))"
    by blast
  moreover have "noGearLoop (run fails evs (createSolarSystem fails db initial))"
    by (rule noGearLoop_reachable)
  ultimately have "isLabelBob (GearOscillation c)"
    by (auto simp: noGearLoop_def list_all_iff)
  then show False by simp
qed

text \<open>
  C8, amended. \<open>gearAnimation\<close> is a counter-driven loop of its own: a call would start a
  timer, and a tick of that timer, with the gear counter below 10, adds 0.01 to the x
  component of the model's local rotation and 1 to the counter, a counter that reaches 10
  jumping to 20; otherwise it takes 0.01 and 1 away, a counter that reaches 10 being
  reset to 0. The tick keeps the counter in [0, 20] and leaves the label-bob counter
  alone, as the label-bob tick leaves the gear counter alone. But nothing calls
  \<open>gearAnimation\<close>: in every state the application reaches only label-bob timers run and
  the gear counter is 0. What the body named \<open>only_gear\<close> gets, when its model has loaded
  and its model node is created, is a looping animation of the host bound to that node.
\<close>

theorem gear_loop_unused:
  "noGearLoop (run fails evs (createSolarSystem fails db initial)) \<and>
   (fails (assetUri (sBody w) (sFacts w)) = None \<and> fails (sBody w @ ''-body'') = None \<and>
    sBody w = ''only_gear'' \<longrightarrow>
      boundAnimations (resume fails w s) = boundAnimations s @ [nextActor s]) \<and>
   gearTick (Some cb) s =
     (updateActor (model cb)
        (setRotationX (\<lambda>r. if gearLoopInc s < 10 then r + 0.01 else r - 0.01)) s)
       \<lparr>gearLoopInc :=
          (if gearLoopInc s < 10
           then (if gearLoopInc s + 1 = 10 then 20 else gearLoopInc s + 1)
           else (if gearLoopInc s - 1 = 10 then 0 else gearLoopInc s - 1))\<rparr> \<and>
   (0 \<le> gearLoopInc s \<and> gearLoopInc s \<le> 20 \<longrightarrow>
      0 \<le> gearLoopInc (gearTick c s) \<and> gearLoopInc (gearTick c s) \<le> 20) \<and>
   labelLoopInc (gearTick c s) = labelLoopInc s \<and>
   gearLoopInc (labelTick c s) = gearLoopInc s \<and>
   intervals (gearAnimation b s) =
     intervals s @ [(nextTimer s, b, GearOscillation (celestialBodies s b))] \<and>
   (find (\<lambda>t. fst t = h) (intervals s) = Some (h, b, GearOscillation (Some cb)) \<longrightarrow>
      step fails (Tick h) s = gearTick (Some cb) s)"
proof -
  have 1: "intervals (gearAnimation b s) =
     intervals s @ [(nextTimer s, b, GearOscillation (celestialBodies s b))]"
    by (simp add: gearAnimation_def)
  have 2: "gearTick (Some cb) s =
     (updateActor (model cb)
        (setRotationX (\<lambda>r. if gearLoopInc s < 10 then r + 0.01 else r - 0.01)) s)
       \<lparr>gearLoopInc :=
          (if gearLoopInc s < 10
           then (if gearLoopInc s + 1 = 10 then 20 else gearLoopInc s + 1)
           else (if gearLoopInc s - 1 = 10 then 0 else gearLoopInc s - 1))\<rparr>"
    by (simp add: gearTick_def updateActor_def Let_def)
  have 3: "find (\<lambda>t. fst t = h) (intervals s) = Some (h, b, GearOscillation (Some cb)) \<longrightarrow>
      step fails (Tick h) s = gearTick (Some cb) s"
    by simp
  have 4: "gearLoopInc (labelTick c s) = gearLoopInc s"
    by (simp add: labelTick_gear)
  from 1 2 3 4 show ?thesis
    using noGearLoop_reachable [of fails evs db] gearTick_range [of s c]
      resume_boundAnimations [of fails w s] gearTick_labelLoopInc [of c s]
    by blast
qed

theorem gear_loop_unused_witness:
  "noGearLoop (run noFailure [HoverEnter ''only_gear'', HoverExit ''only_gear'', Tick 0]
      exampleState) \<and>
   boundAnimations (resume noFailure (suspendedAt ''only_gear'' (exampleRecord ''Gear'' 8) 5 0)
      (startedState\<lparr>awaiting := []\<rparr>)) = [15] \<and>
   boundAnimations exampleState = [16] \<and>
   gearLoopInc initial = 0 \<and>
   0 \<le> gearLoopInc (gearTick (Some gearBody) initial) \<and>
   gearLoopInc (gearTick (Some gearBody) initial) \<le> 20 \<and>
   find (\<lambda>t. fst t = 2) (intervals (gearAnimation ''only_gear'' exampleState)) =
     Some (2, ''only_gear'', GearOscillation (Some gearBody)) \<and>
   step noFailure (Tick 2) (gearAnimation ''only_gear'' exampleState) =
     gearTick (Some gearBody) (gearAnimation ''only_gear'' exampleState) \<and>
   gearLoopInc (gearTick (Some gearBody) (gearAnimation ''only_gear'' exampleState)) = 1"
proof -
  let ?w = "suspendedAt ''only_gear'' (exampleRecord ''Gear'' 8) 5 0"
  let ?g = "gearAnimation ''only_gear'' exampleState"
  have r: "run noFailure ([Loaded 0, Loaded 0, Loaded 0] @
        [HoverEnter ''only_gear'', HoverExit ''only_gear'', Tick 0])
      (createSolarSystem noFailure exampleDatabase initial) =
    run noFailure [HoverEnter ''only_gear'', HoverExit ''only_gear'', Tick 0] exampleState"
    unfolding exampleState_def by simp
  note t = gear_loop_unused [of noFailure "[Loaded 0, Loaded 0, Loaded 0] @
        [HoverEnter ''only_gear'', HoverExit ''only_gear'', Tick 0]"
      exampleDatabase ?w "startedState\<lparr>awaiting := []\<rparr>" gearBody "Some gearBody"
      "''only_gear''" 2, unfolded r]
  note u = gear_loop_unused [of noFailure "[]" exampleDatabase ?w initial gearBody
      "Some gearBody" "''only_gear''" 2]
  note v = gear_loop_unused [of noFailure "[]" exampleDatabase ?w ?g gearBody
      "Some gearBody" "''only_gear''" 2]
  have c: "noFailure (assetUri (sBody ?w) (sFacts ?w)) = None \<and>
      noFailure (sBody ?w @ ''-body'') = None \<and> sBody ?w = ''only_gear''"
    by (simp add: noFailure_def suspendedAt_simps)
  from t c have "boundAnimations (resume noFailure ?w (startedState\<lparr>awaiting := []\<rparr>)) =
      boundAnimations (startedState\<lparr>awaiting := []\<rparr>) @ [nextActor (startedState\<lparr>awaiting := []\<rparr>)]"
    by blast
  moreover have "boundAnimations startedState = []"
    by (simp add: startedState_def createSolarSystem_def Object_keys_def exampleDatabase_def
        createBody_noFailure example_uris prefixBuilt_fields containers_prefixBuilt initial_def)
  ultimately have b: "boundAnimations (resume noFailure ?w (startedState\<lparr>awaiting := []\<rparr>)) = [15]"
    by (simp add: startedState_fields)
  have e: "boundAnimations exampleState = [16]"
    by (simp add: example_simps \<open>boundAnimations startedState = []\<close>)
  have g: "gearLoopInc initial = 0" by (simp add: initial_def)
  from u g have k: "0 \<le> gearLoopInc (gearTick (Some gearBody) initial) \<and>
   gearLoopInc (gearTick (Some gearBody) initial) \<le> 20"
    by simp
  have f: "find (\<lambda>t. fst t = 2) (intervals ?g) =
     Some (2, ''only_gear'', GearOscillation (Some gearBody))"
    by (simp add: gearAnimation_def exampleState_fields)
  from v f have x: "step noFailure (Tick 2) ?g = gearTick (Some gearBody) ?g" by blast
  have "noGearLoop exampleState"
    using gear_loop_unused [of noFailure "[Loaded 0, Loaded 0, Loaded 0]" exampleDatabase ?w
        initial gearBody "Some gearBody" "''only_gear''" 2]
    unfolding exampleState_def by blast
  then have "gearLoopInc ?g = 0" by (simp add: noGearLoop_def gearAnimation_def)
  moreover from v have "gearTick (Some gearBody) ?g =
     (updateActor (model gearBody)
        (setRotationX (\<lambda>r. if gearLoopInc ?g < 10 then r + 0.01 else r - 0.01)) ?g)
       \<lparr>gearLoopInc :=
          (if gearLoopInc ?g < 10
           then (if gearLoopInc ?g + 1 = 10 then 20 else gearLoopInc ?g + 1)
           else (if gearLoopInc ?g - 1 = 10 then 0 else gearLoopInc ?g - 1))\<rparr>"
    by blast
  ultimately have y: "gearLoopInc (gearTick (Some gearBody) ?g) = 1"
    by (simp add: updateActor_def)
  from t b e g k f x y show ?thesis by blast
qed

section \<open>The visual scale\<close>

definition modelScale :: "SolarSystem \<Rightarrow> string \<Rightarrow> number Vector3Like option" where
  "modelScale s b =
     (case celestialBodies s b of
        None \<Rightarrow> None
      | Some cb \<Rightarrow> map_option localScale (actors s (model cb)))"

definition uniform :: "number \<Rightarrow> number Vector3Like" where
  "uniform v = Vector3 v v v"

lemma scaleValue_nonneg:
  "0 \<le> diameter facts \<Longrightarrow> scaleValue facts = uniform (Num (root 3 (diameter facts) / 25 / 2))"
  by (simp add: scaleValue_def Math_pow_third_def divide_number_def uniform_def)

lemma scaleValue_neg: "diameter facts < 0 \<Longrightarrow> scaleValue facts = uniform NaN"
  by (simp add: scaleValue_def Math_pow_third_def divide_number_def uniform_def)

lemma modelScale_completed:
  "modelScale (completed w s) (sBody w) = Some (scaleValue (sFacts w))"
  by (simp add: modelScale_def completed_def finishBody_def Let_def updateActor_def
      animationPlayPause_def actors_addActor bodyOf_def modelActor_def)

lemma modelScale_resume:
  "fails (assetUri (sBody w) (sFacts w)) = None \<Longrightarrow> fails (sBody w @ ''-body'') = None \<Longrightarrow>
     modelScale (resume fails w s) (sBody w) = Some (scaleValue (sFacts w))"
  by (simp add: resume_succeeds modelScale_completed)

lemma modelScale_createBody_try:
  assumes "createBody_try fails b facts s = Done (Returns s')"
  shows "modelScale s' b = Some (scaleValue facts)"
proof (cases "prefixOK fails b")
  case False
  from createBody_try_prefix_fails [OF False, of facts s] assms show ?thesis by auto
next
  case True
  let ?w = "suspendedAt b facts (nextActor s) (assets s)"
  from createBody_try_prefixOK [OF True, of facts s] assms
  have "createBody_rest fails ?w (assetUri b facts) (prefixBuilt b facts s) = Returns s'"
    by (simp split: if_splits)
  then have "s' = completed ?w (prefixBuilt b facts s)"
    using createBody_rest_eq [of fails ?w "prefixBuilt b facts s"]
    by (simp add: suspendedAt_simps split: option.splits)
  then show ?thesis
    using modelScale_completed [of ?w "prefixBuilt b facts s"] by (simp add: suspendedAt_simps)
qed

text \<open>
  C9, as the claim states it, fails for a negative diameter: \<^verbatim>\<open>Math.pow(-8, 1 / 3)\<close> is
  \<^verbatim>\<open>NaN\<close>, while the cube root of -8 is -2.
\<close>

theorem scale_negative_diameter:
  "scaleValue (exampleRecord ''Moon'' (- 8)) = uniform NaN \<and>
   scaleValue (exampleRecord ''Moon'' (- 8))
     \<noteq> uniform (Num (root 3 (diameter (exampleRecord ''Moon'' (- 8))) / 25 / 2))"
  by (simp add: scaleValue_neg exampleRecord_fields uniform_def)

text \<open>
  C9, amended. For a record whose diameter is not negative the scale of the model node,
  whether \<open>createBody\<close> creates it at once or after the load of the model, is the cube
  root of the diameter, divided by 25 and halved, on all three axes (a negative diameter
  gives \<open>NaN\<close> on all three); a diameter of 0 gives the scale 0, and the body is built
  like any other.
\<close>

theorem model_scale:
  "(createBody_try fails b facts s = Done (Returns s') \<longrightarrow>
      modelScale s' b = Some (scaleValue facts)) \<and>
   (fails (assetUri (sBody w) (sFacts w)) = None \<and> fails (sBody w @ ''-body'') = None \<longrightarrow>
      modelScale (resume fails w s) (sBody w) = Some (scaleValue (sFacts w))) \<and>
   (0 \<le> diameter facts \<longrightarrow>
      scaleValue facts = uniform (Num (root 3 (diameter facts) / 25 / 2))) \<and>
   (diameter facts < 0 \<longrightarrow> scaleValue facts = uniform NaN) \<and>
   (diameter facts = 0 \<longrightarrow> scaleValue facts = uniform (Num 0))"
proof -
  have "scaleValue facts = uniform (Num 0)" if "diameter facts = 0"
    using that by (simp add: scaleValue_nonneg)
  then show ?thesis
    using modelScale_createBody_try [of fails b facts s s'] modelScale_resume [of fails w s]
      scaleValue_nonneg [of facts] scaleValue_neg [of facts]
    by blast
qed

theorem model_scale_witness:
  "modelScale (resume noFailure (suspendedAt ''popup_model'' (exampleRecord [] 0) 10 0)
       (startedState\<lparr>awaiting := []\<rparr>)) ''popup_model'' = Some (uniform (Num 0)) \<and>
   createBody_try noFailure ''popup_model'' (exampleRecord [] 0)
       (registerPrefab 0 ''assets/popup_model.glb'' initial) =
     Done (Returns (completed (suspendedAt ''popup_model'' (exampleRecord [] 0) 0 0)
       (prefixBuilt ''popup_model'' (exampleRecord [] 0)
          (registerPrefab 0 ''assets/popup_model.glb'' initial)))) \<and>
   modelScale (completed (suspendedAt ''popup_model'' (exampleRecord [] 0) 0 0)
       (prefixBuilt ''popup_model'' (exampleRecord [] 0)
          (registerPrefab 0 ''assets/popup_model.glb'' initial))) ''popup_model'' =
     Some (uniform (Num 0)) \<and>
   scaleValue (exampleRecord ''Cloud'' 1000) = uniform (Num (1 / 5)) \<and>
   scaleValue (exampleRecord ''Moon'' (- 8)) = uniform NaN"
proof -
  let ?w = "suspendedAt ''popup_model'' (exampleRecord [] 0) 10 0"
  let ?r = "registerPrefab 0 ''assets/popup_model.glb'' initial"
  let ?c = "completed (suspendedAt ''popup_model'' (exampleRecord [] 0) 0 0)
       (prefixBuilt ''popup_model'' (exampleRecord [] 0) ?r)"
  note t = model_scale [of noFailure "''popup_model''" "exampleRecord [] 0" ?r ?c ?w]
  note u = model_scale [of noFailure "''popup_model''" "exampleRecord [] 0"
      "startedState\<lparr>awaiting := []\<rparr>" ?c ?w]
  have d0: "diameter (exampleRecord [] 0) = 0" by (simp add: exampleRecord_fields)
  from t d0 have z: "scaleValue (exampleRecord [] 0) = uniform (Num 0)" by blast
  have f: "noFailure (assetUri (sBody ?w) (sFacts ?w)) = None \<and>
      noFailure (sBody ?w @ ''-body'') = None"
    by (simp add: noFailure_def)
  from u f have "modelScale (resume noFailure ?w (startedState\<lparr>awaiting := []\<rparr>)) (sBody ?w)
      = Some (scaleValue (sFacts ?w))"
    by blast
  with z have m: "modelScale (resume noFailure ?w (startedState\<lparr>awaiting := []\<rparr>))
      ''popup_model'' = Some (uniform (Num 0))"
    by (simp add: suspendedAt_simps)
  have r: "createBody_try noFailure ''popup_model'' (exampleRecord [] 0) ?r = Done (Returns ?c)"
    using createBody_rest_eq [of noFailure "suspendedAt ''popup_model'' (exampleRecord [] 0) 0 0"
        "prefixBuilt ''popup_model'' (exampleRecord [] 0) ?r"]
    by (simp add: createBody_try_prefixOK prefixOK_def noFailure_def example_uris
        containers_registerPrefab registerPrefab_fields suspendedAt_simps initial_def)
  from t r z have c: "modelScale ?c ''popup_model'' = Some (uniform (Num 0))" by simp
  have "root 3 (10 ^ 3) = (10::real)" by (rule real_root_power_cancel) simp_all
  then have k: "root 3 1000 = (10::real)" by simp
  have "(0::real) \<le> diameter (exampleRecord ''Cloud'' 1000)" by (simp add: exampleRecord_fields)
  with model_scale [of noFailure "''box_model_cloud''" "exampleRecord ''Cloud'' 1000" initial
      initial ?w]
  have "scaleValue (exampleRecord ''Cloud'' 1000) =
      uniform (Num (root 3 (diameter (exampleRecord ''Cloud'' 1000)) / 25 / 2))"
    by blast
  then have p: "scaleValue (exampleRecord ''Cloud'' 1000) = uniform (Num (1 / 5))"
    by (simp add: exampleRecord_fields k)
  have "diameter (exampleRecord ''Moon'' (- 8)) < 0" by (simp add: exampleRecord_fields)
  with model_scale [of noFailure "''moon''" "exampleRecord ''Moon'' (- 8)" initial initial ?w]
  have n: "scaleValue (exampleRecord ''Moon'' (- 8)) = uniform NaN"
    by blast
  from m r c p n show ?thesis by simp
qed

section \<open>The hover and click handlers\<close>














section \<open>Several bodies, one counter and one handle\<close>

definition bobCycle :: "event list" where
  "bobCycle = [Tick 0, Tick 1, Tick 0, Tick 1, Tick 0, Tick 1, Tick 0, Tick 1, Tick 0, Tick 1]"

fun cycles :: "nat \<Rightarrow> event list" where
  "cycles 0 = []"
| "cycles (Suc n) = bobCycle @ cycles n"

lemma run_append: "run fails (xs @ ys) s = run fails ys (run fails xs s)"
  by (induction xs arbitrary: s) simp_all

lemma bobCycle_run:
  assumes "intervals s = intervals exampleState" and "labelLoopInc s = 0"
  shows "intervals (run fails bobCycle s) = intervals exampleState \<and>
         labelLoopInc (run fails bobCycle s) = 0 \<and>
         labelOffset boxBody (run fails bobCycle s) =
           map_option (\<lambda>y. y + 0.01) (labelOffset boxBody s) \<and>
         labelOffset gearBody (run fails bobCycle s) =
           map_option (\<lambda>y. y - 0.01) (labelOffset gearBody s)"
  by (simp add: bobCycle_def assms exampleState_fields labelTick_def updateActor_def Let_def
      labelOffset_def setLabelY_def boxBody_def gearBody_def option.map_comp comp_def ac_simps)

lemma cycles_run:
  assumes "intervals s = intervals exampleState" and "labelLoopInc s = 0"
  shows "intervals (run fails (cycles n) s) = intervals exampleState \<and>
         labelLoopInc (run fails (cycles n) s) = 0 \<and>
         labelOffset boxBody (run fails (cycles n) s) =
           map_option (\<lambda>y. y + real n * 0.01) (labelOffset boxBody s) \<and>
         labelOffset gearBody (run fails (cycles n) s) =
           map_option (\<lambda>y. y - real n * 0.01) (labelOffset gearBody s)"
  using assms
proof (induction n arbitrary: s)
  case 0
  then show ?case by (simp add: option.map_ident)
next
  case (Suc n)
  note c = bobCycle_run [OF Suc.prems, of fails]
  from c have i: "intervals (run fails bobCycle s) = intervals exampleState"
    and l: "labelLoopInc (run fails bobCycle s) = 0" by simp_all
  have r: "run fails (cycles (Suc n)) s = run fails (cycles n) (run fails bobCycle s)"
    by (simp add: run_append)
  from Suc.IH [OF i l] c show ?case
    unfolding r by (simp add: option.map_comp comp_def algebra_simps add_divide_distrib)
qed

text \<open>
  C3 fails on the code. With the two named bodies of the example table both bob timers
  run on the one counter \<open>labelLoopInc\<close>. After their first ten ticks the second body's
  label is below its rest offset 0.4, and after \<open>n\<close> rounds of ten ticks it is \<open>n\<close> steps
  below it while the first body's label is \<open>n\<close> steps above: after six rounds both are
  outside [0.4, 0.45].
\<close>

theorem shared_counter_drift:
  "labelOffset boxBody exampleState = Some 0.4 \<and>
   labelOffset gearBody exampleState = Some 0.4 \<and>
   labelOffset gearBody (run noFailure bobCycle exampleState) = Some 0.39 \<and>
   labelOffset boxBody (run noFailure (cycles n) exampleState) = Some (0.4 + real n * 0.01) \<and>
   labelOffset gearBody (run noFailure (cycles n) exampleState) = Some (0.4 - real n * 0.01) \<and>
   labelOffset boxBody (run noFailure (cycles 6) exampleState) = Some 0.46"
proof -
  have l: "labelLoopInc exampleState = 0" by (simp add: exampleState_fields)
  from bobCycle_run [OF refl l, of noFailure] cycles_run [OF refl l, of noFailure n]
    cycles_run [OF refl l, of noFailure 6]
  show ?thesis
    by (simp add: labelOffset_exampleState)
qed

section \<open>One handle for many timers\<close>

definition hoverCycle :: "string \<Rightarrow> event list" where
  "hoverCycle b = [HoverEnter b, HoverExit b]"

text \<open>
  C2 fails on the code. With every model loaded each of the two named bodies of the
  example table has one bob timer, and the handle \<open>animationLoopIterval\<close> holds the one
  started last, that of \<open>only_gear\<close>. A hover over \<open>box_model_cloud\<close> therefore stops the
  timer of \<open>only_gear\<close> on enter and starts a second timer for \<open>box_model_cloud\<close> on exit.
\<close>

theorem hover_cycle_duplicates_timer:
  "map (\<lambda>t. fst (snd t)) (intervals exampleState) = [''box_model_cloud'', ''only_gear''] \<and>
   animationLoopIterval exampleState = Some 1 \<and>
   intervals (run noFailure (hoverCycle ''box_model_cloud'') exampleState) =
     [(0, ''box_model_cloud'', LabelBob (Some boxBody)),
      (2, ''box_model_cloud'', LabelBob (Some boxBody))]"
  by (simp add: hoverCycle_def exampleState_fields step_defs)

text \<open>
  C7 fails on the code. \<open>childBoxTimeout\<close> holds the handle of the last shrink only. After
  two hovers two shrinks are pending (3 and 5); the click cancels 5, and 3 still fires
  after it, starting the shrink of the popup model (node 17) to scale 0.
\<close>

theorem click_leaves_older_shrink:
  "timeouts (run noFailure (hoverCycle ''box_model_cloud'' @ hoverCycle ''box_model_cloud'')
       exampleState) = [3, 5] \<and>
   timeouts (run noFailure (hoverCycle ''box_model_cloud'' @ hoverCycle ''box_model_cloud'' @
       [Click ''box_model_cloud'']) exampleState) = [3] \<and>
   map target (animations (run noFailure (hoverCycle ''box_model_cloud'' @
       hoverCycle ''box_model_cloud'' @ [Click ''box_model_cloud'', Timeout 3]) exampleState)) =
     [1, 6, 1, 6, 1, 6, 1, 6, 17, 17] \<and>
   dest (last (animations (run noFailure (hoverCycle ''box_model_cloud'' @
       hoverCycle ''box_model_cloud'' @ [Click ''box_model_cloud'', Timeout 3]) exampleState))) =
     LocalScale (uniform (Num 0))"
  by (simp add: hoverCycle_def exampleState_fields step_defs shrinkScale_def uniform_def
      Math_pow_third_def divide_number_def boxBody_def gearBody_def popupBody_def)

section \<open>The models that are loaded\<close>


















end
